theory Spec2Isabelle
  imports Main "HOL-Library.Sublist"
begin

section \<open>Texts and the JavaScript string primitives used by the servers\<close>

text \<open>
  A text is a \<^typ>\<open>string\<close>: a sequence of code units below 256. On such texts the
  character classes of the regular expressions and of \<open>String.prototype.trim\<close> are the
  ones below: white space is TAB, LF, VT, FF, CR, SPACE and NBSP (the other members of
  \<open>\s\<close> lie above 255), a line terminator is LF or CR, a digit is \<open>0\<close> to \<open>9\<close>.
\<close>

definition code :: "char \<Rightarrow> nat" where
  "code c = of_char c"

definition isWhiteSpace :: "char \<Rightarrow> bool" where
  "isWhiteSpace c = (code c \<in> {9, 10, 11, 12, 13, 32, 160})"

definition isLineTerminator :: "char \<Rightarrow> bool" where
  "isLineTerminator c = (code c \<in> {10, 13})"

definition isDigit :: "char \<Rightarrow> bool" where
  "isDigit c = (48 \<le> code c \<and> code c \<le> 57)"

text \<open>\<open>s.trim()\<close>: white space and line terminators are removed at both ends.\<close>

definition trim :: "string \<Rightarrow> string" where
  "trim s = rev (dropWhile isWhiteSpace (rev (dropWhile isWhiteSpace s)))"

text \<open>
  \<open>s.toLowerCase()\<close> on code units below 256: the letters \<open>A\<close> to \<open>Z\<close> and the
  accented capitals 192 to 222 (without the multiplication sign 215) move up by 32.
\<close>

definition lowerChar :: "char \<Rightarrow> char" where
  "lowerChar c =
     (if (65 \<le> code c \<and> code c \<le> 90) \<or> (192 \<le> code c \<and> code c \<le> 222 \<and> code c \<noteq> 215)
      then char_of (code c + 32) else c)"

definition toLowerCase :: "string \<Rightarrow> string" where
  "toLowerCase s = map lowerChar s"

text \<open>\<open>s.includes(t)\<close>: \<open>t\<close> occurs in \<open>s\<close> as a contiguous block.\<close>

fun includesStr :: "string \<Rightarrow> string \<Rightarrow> bool" where
  "includesStr [] t = (t = [])"
| "includesStr (c # cs) t = (prefix t (c # cs) \<or> includesStr cs t)"

section \<open>The regular expressions of the parser\<close>

text \<open>
  Under the flag \<open>i\<close> a pattern character and an input character match when their
  canonical forms agree. The canonical form of a code unit is its upper case when that
  is a single code unit; below 256 the letters \<open>a\<close> to \<open>z\<close> and the accented small
  letters 224 to 254 (without the division sign 247) move down by 32, and each other
  code unit is matched by itself only.
\<close>

definition canonicalize :: "char \<Rightarrow> char" where
  "canonicalize c =
     (if (97 \<le> code c \<and> code c \<le> 122) \<or> (224 \<le> code c \<and> code c \<le> 254 \<and> code c \<noteq> 247)
      then char_of (code c - 32) else c)"

definition ciEq :: "char \<Rightarrow> char \<Rightarrow> bool" where
  "ciEq p c = (canonicalize p = canonicalize c)"

text \<open>
  The literal part of a pattern, matched at the start of the input: the rest of the
  input after the literal, or \<open>None\<close>.
\<close>

fun matchLiteral :: "string \<Rightarrow> string \<Rightarrow> string option" where
  "matchLiteral [] s = Some s"
| "matchLiteral (p # ps) [] = None"
| "matchLiteral (p # ps) (c # cs) = (if ciEq p c then matchLiteral ps cs else None)"

text \<open>
  \<open>(.+)\<close> at the start of the input: greedy, at least one character, none of them a
  line terminator. \<open>([\s\S]+)\<close>: greedy, at least one character, any character.
\<close>

definition dotPlus :: "string \<Rightarrow> string option" where
  "dotPlus s = (let cap = takeWhile (\<lambda>c. \<not> isLineTerminator c) s
                in if cap = [] then None else Some cap)"

definition anyPlus :: "string \<Rightarrow> string option" where
  "anyPlus s = (if s = [] then None else Some s)"

text \<open>
  \<open>\s*\<close> followed by a capture group \<open>k\<close>. The star is greedy and backtracks: it
  first takes a white-space character and tries the rest of the pattern behind it, and
  only when that fails does it stop in front of the character and hand over to \<open>k\<close>.
\<close>

fun spacesThen :: "(string \<Rightarrow> string option) \<Rightarrow> string \<Rightarrow> string option" where
  "spacesThen k [] = k []"
| "spacesThen k (c # cs) =
     (if isWhiteSpace c
      then (case spacesThen k cs of Some cap \<Rightarrow> Some cap | None \<Rightarrow> k (c # cs))
      else k (c # cs))"

text \<open>The whole pattern \<open>/LABEL\s*(group)/i\<close> tried at the start of the input.\<close>

definition matchAt :: "string \<Rightarrow> (string \<Rightarrow> string option) \<Rightarrow> string \<Rightarrow> string option" where
  "matchAt label k s = (case matchLiteral label s of None \<Rightarrow> None | Some rest \<Rightarrow> spacesThen k rest)"

text \<open>
  \<open>text.match(re)\<close> without the flag \<open>g\<close>: the pattern is tried at position 0, 1, 2,
  ... and the first position where it matches decides. The result is capture group 1
  (\<open>Some cap\<close> for \<open>m[1]\<close>), or \<open>None\<close> when \<open>match\<close> returns \<open>null\<close>.
\<close>

fun matchGroup :: "string \<Rightarrow> (string \<Rightarrow> string option) \<Rightarrow> string \<Rightarrow> string option" where
  "matchGroup label k [] = matchAt label k []"
| "matchGroup label k (c # cs) =
     (case matchAt label k (c # cs) of Some cap \<Rightarrow> Some cap | None \<Rightarrow> matchGroup label k cs)"

text \<open>\<open>/^\d+$/.test(s)\<close>: the whole of \<open>s\<close> is one or more digits.\<close>

definition digitsOnly :: "string \<Rightarrow> bool" where
  "digitsOnly s = (s \<noteq> [] \<and> list_all isDigit s)"

text \<open>\<open>m ? m[1].trim() : dflt\<close>.\<close>

definition fieldOr :: "string option \<Rightarrow> string \<Rightarrow> string" where
  "fieldOr m dflt = (case m of Some cap \<Rightarrow> trim cap | None \<Rightarrow> dflt)"

text \<open>
  Notions used to state what the parser does. \<open>hasLabel label text\<close>: the label
  occurs somewhere in the text, in any letter case. \<open>valueAfter rest\<close>: white space
  (line breaks included) is skipped, what follows up to the next line break is taken
  and trimmed. \<open>remainderOfLine rest\<close>: what stands between the label and the end of
  its own line, trimmed.
\<close>

fun hasLabel :: "string \<Rightarrow> string \<Rightarrow> bool" where
  "hasLabel label [] = (matchLiteral label [] \<noteq> None)"
| "hasLabel label (c # cs) = (matchLiteral label (c # cs) \<noteq> None \<or> hasLabel label cs)"

definition valueAfter :: "string \<Rightarrow> string" where
  "valueAfter rest = trim (takeWhile (\<lambda>c. \<not> isLineTerminator c) (dropWhile isWhiteSpace rest))"

definition remainderOfLine :: "string \<Rightarrow> string" where
  "remainderOfLine rest = trim (takeWhile (\<lambda>c. \<not> isLineTerminator c) rest)"

section \<open>Requests, responses and the upstream services\<close>

text \<open>
  The JavaScript values that the handlers pass to \<open>res.json\<close>. \<open>JInherited k\<close> is the
  value of the property \<open>k\<close> that every object literal inherits from
  \<open>Object.prototype\<close> (a built-in function, or the prototype object itself for
  \<open>__proto__\<close>).
\<close>

datatype jsval =
    JStr string
  | JBool bool
  | JObj "(string \<times> jsval) list"
  | JInherited string

fun at :: "string list \<Rightarrow> jsval \<Rightarrow> jsval option" where
  "at [] v = Some v"
| "at (k # ks) (JObj kvs) = (case map_of kvs k of None \<Rightarrow> None | Some v \<Rightarrow> at ks v)"
| "at (k # ks) _ = None"

datatype payload = NoBody | Text string | Json jsval

record response =
  statusCode :: nat
  headers :: "string \<rightharpoonup> string"
  resBody :: payload

definition field :: "string list \<Rightarrow> response \<Rightarrow> jsval option" where
  "field path res = (case resBody res of Json v \<Rightarrow> at path v | _ \<Rightarrow> None)"

definition freshResponse :: response where
  "freshResponse = \<lparr>statusCode = 200, headers = Map.empty, resBody = NoBody\<rparr>"

record solveBody =
  bodyProblem :: "string option"
  bodyPreferredMethod :: "string option"

record request =
  reqMethod :: string
  reqUrl :: string
  reqBody :: solveBody

text \<open>
  Express: \<open>res.header\<close> sets a header field, \<open>res.status\<close> sets the status code,
  \<open>res.json\<close> sends a JSON body, and \<open>res.sendStatus(c)\<close> sets the status code and sends
  the registered status message of \<open>c\<close> as the text body (the decimal code when no
  message is registered; the table holds the entries for the codes of interest here).
\<close>

definition header :: "string \<Rightarrow> string \<Rightarrow> response \<Rightarrow> response" where
  "header k v res = res\<lparr>headers := (headers res)(k \<mapsto> v)\<rparr>"

definition status :: "nat \<Rightarrow> response \<Rightarrow> response" where
  "status c res = res\<lparr>statusCode := c\<rparr>"

definition json :: "jsval \<Rightarrow> response \<Rightarrow> response" where
  "json v res = res\<lparr>resBody := Json v\<rparr>"

fun digitChar :: "nat \<Rightarrow> char" where
  "digitChar n = char_of (48 + n)"

function decimal :: "nat \<Rightarrow> string" where
  "decimal n = (if n < 10 then [digitChar n] else decimal (n div 10) @ [digitChar (n mod 10)])"
  by pat_completeness auto
termination
  by (relation "measure id") auto

definition statusMessages :: "nat \<rightharpoonup> string" where
  "statusMessages = [200 \<mapsto> ''OK'', 400 \<mapsto> ''Bad Request'', 404 \<mapsto> ''Not Found'',
                     500 \<mapsto> ''Internal Server Error'']"

definition sendStatus :: "nat \<Rightarrow> response \<Rightarrow> response" where
  "sendStatus c res =
     res\<lparr>statusCode := c,
         resBody := Text (case statusMessages c of Some m \<Rightarrow> m | None \<Rightarrow> decimal c)\<rparr>"

text \<open>
  The upstream services. Every call is recorded; a service answers from the calls made
  so far and its arguments, with \<open>Inl msg\<close> for a thrown error with message \<open>msg\<close>.
  \<open>generateContent\<close> stands for \<open>model.generateContent(prompt)\<close> followed by
  \<open>response.text()\<close>; \<open>axiosGet\<close> for \<open>axios.get(url)\<close> and its \<open>data\<close>.
\<close>

datatype call = GenerateContent string | AxiosGet string

record newtonData =
  dataResult :: string
  dataOperation :: string

type_synonym completionClient = "call list \<Rightarrow> string \<Rightarrow> string + string"
type_synonym httpClient = "call list \<Rightarrow> string \<Rightarrow> string + newtonData"

text \<open>
  Upstream services that answer from a script: the \<open>n\<close>-th call to the service gets
  the \<open>n\<close>-th answer, and a call beyond the script fails.
\<close>

fun isGenerate :: "call \<Rightarrow> bool" where
  "isGenerate (GenerateContent p) = True"
| "isGenerate (AxiosGet u) = False"

fun answer :: "(string + 'a) list \<Rightarrow> nat \<Rightarrow> string + 'a" where
  "answer [] n = Inl ''no answer''"
| "answer (a # as) 0 = a"
| "answer (a # as) (Suc n) = answer as n"

definition scriptedModel :: "(string + string) list \<Rightarrow> completionClient" where
  "scriptedModel answers log prompt = answer answers (length (filter isGenerate log))"

definition scriptedHttp :: "(string + newtonData) list \<Rightarrow> httpClient" where
  "scriptedHttp answers log url = answer answers (length (filter (\<lambda>c. \<not> isGenerate c) log))"

abbreviation LF :: string where "LF \<equiv> [CHR 0x0A]"
abbreviation DQ :: string where "DQ \<equiv> [CHR 0x22]"

definition template :: "string list \<Rightarrow> string" where
  "template ls = LF @ concat (map (\<lambda>l. l @ LF) ls)"

section \<open>The CORS middleware (both servers, lines 8 to 17)\<close>

definition cors :: "request \<Rightarrow> response \<Rightarrow> (response \<Rightarrow> call list \<times> response) \<Rightarrow> call list \<times> response" where
  "cors req res next =
     (let res1 = header ''Access-Control-Allow-Origin'' ''*'' res;
          res2 = header ''Access-Control-Allow-Methods'' ''GET, POST, PUT, DELETE, OPTIONS'' res1;
          res3 = header ''Access-Control-Allow-Headers''
                   ''Origin, X-Requested-With, Content-Type, Accept, Authorization'' res2
      in if reqMethod req = ''OPTIONS'' then ([], sendStatus 200 res3) else next res3)"

text \<open>
  A request is served with a fresh response object: it passes the CORS middleware, and
  the handler of its route is what the middleware calls as \<open>next\<close>.
\<close>

definition serve :: "request \<Rightarrow> (response \<Rightarrow> call list \<times> response) \<Rightarrow> call list \<times> response" where
  "serve req handler = cors req freshResponse handler"

text \<open>The response object as the CORS middleware hands it to a handler.\<close>

definition corsResponse :: response where
  "corsResponse =
     \<lparr>statusCode = 200,
      headers = [''Access-Control-Allow-Origin'' \<mapsto> ''*'',
                 ''Access-Control-Allow-Methods'' \<mapsto> ''GET, POST, PUT, DELETE, OPTIONS'',
                 ''Access-Control-Allow-Headers'' \<mapsto>
                    ''Origin, X-Requested-With, Content-Type, Accept, Authorization''],
      resBody = NoBody\<rparr>"

definition getRequest :: "string \<Rightarrow> request" where
  "getRequest url = \<lparr>reqMethod = ''GET'', reqUrl = url,
                     reqBody = \<lparr>bodyProblem = None, bodyPreferredMethod = None\<rparr>\<rparr>"

definition optionsRequest :: "string \<Rightarrow> request" where
  "optionsRequest url = \<lparr>reqMethod = ''OPTIONS'', reqUrl = url,
                         reqBody = \<lparr>bodyProblem = None, bodyPreferredMethod = None\<rparr>\<rparr>"

definition postSolve :: "string option \<Rightarrow> request" where
  "postSolve p = \<lparr>reqMethod = ''POST'', reqUrl = ''/solve'',
                  reqBody = \<lparr>bodyProblem = p, bodyPreferredMethod = None\<rparr>\<rparr>"

section \<open>server.js: the single-model variant\<close>

definition geminiPrompt :: "string \<Rightarrow> string" where
  "geminiPrompt problem = template
     [''You are a mathematical expert. Solve this math problem step by step:'',
      [],
      ''Problem: '' @ DQ @ problem @ DQ,
      [],
      ''Please provide your response in this EXACT format:'',
      ''OPERATION: [the mathematical operation needed]'',
      ''EXPRESSION: [the clean mathematical expression]'',
      ''RESULT: [the final answer - for derivatives, provide the derivative expression like ''
         @ DQ @ ''2x + 3'' @ DQ @ '']'',
      ''STEPS: [detailed step-by-step solution]'',
      [],
      ''Important rules:'',
      ''- For derivatives: Show the derivative as an algebraic expression (e.g., ''
         @ DQ @ ''2x + 3'' @ DQ @ '', not just a number)'',
      ''- For integration: Include the constant of integration (+C)'',
      ''- For factoring: Show the factored form'',
      ''- For simplification: Show the simplified expression'',
      ''- Always show your work step by step'',
      [],
      ''Example for derivative of x^2 + 3x + 2:'',
      ''OPERATION: derivative'',
      ''EXPRESSION: x^2 + 3x + 2  '',
      ''RESULT: 2x + 3'',
      ''STEPS: '',
      ''1. Apply power rule to x^2: derivative is 2x'',
      ''2. Apply power rule to 3x: derivative is 3'',
      ''3. Derivative of constant 2 is 0'',
      ''4. Combine: 2x + 3 + 0 = 2x + 3'']"

text \<open>Lines 68 to 76: the four fields of the structured completion.\<close>

record parsed =
  pOperation :: string
  pExpression :: string
  pResult :: string
  pSteps :: string

definition parseStructured :: "string \<Rightarrow> string \<Rightarrow> parsed" where
  "parseStructured problem geminiResponse =
     (let operationMatch = matchGroup ''OPERATION:'' dotPlus geminiResponse;
          expressionMatch = matchGroup ''EXPRESSION:'' dotPlus geminiResponse;
          resultMatch = matchGroup ''RESULT:'' dotPlus geminiResponse;
          stepsMatch = matchGroup ''STEPS:'' anyPlus geminiResponse
      in \<lparr>pOperation = fieldOr operationMatch ''unknown'',
          pExpression = fieldOr expressionMatch problem,
          pResult = fieldOr resultMatch ''Could not determine result'',
          pSteps = fieldOr stepsMatch ''Steps not provided''\<rparr>)"

text \<open>The raw text of the specification's parsing example.\<close>

definition specExample :: string where
  "specExample = ''OPERATION: derivative'' @ LF @ ''EXPRESSION: x^2'' @ LF @ ''RESULT: 2x'' @ LF
                   @ ''STEPS: apply power rule''"

text \<open>Further completions used as examples.\<close>

definition derivRaw :: string where
  "derivRaw = ''OPERATION: Derivative'' @ LF @ ''EXPRESSION: 7x'' @ LF @ ''RESULT: 7'' @ LF
                @ ''STEPS: the slope of 7x''"

definition addRaw :: string where
  "addRaw = ''OPERATION: addition'' @ LF @ ''EXPRESSION: 2+2'' @ LF @ ''RESULT: 4'' @ LF
              @ ''STEPS: add the numbers''"

definition noResultRaw :: string where
  "noResultRaw = ''OPERATION: derivative'' @ LF @ ''EXPRESSION: x^2'' @ LF @ ''STEPS: apply power rule''"

text \<open>Lines 79 to 81: the condition under which the handler throws.\<close>

definition derivativeIsNumber :: "parsed \<Rightarrow> bool" where
  "derivativeIsNumber p =
     (includesStr (toLowerCase (pOperation p)) ''deriv'' \<and> digitsOnly (pResult p))"

definition validationMessage :: string where
  "validationMessage = ''Derivative result should be an expression, not just a number''"

definition explanationPrompt :: "string \<Rightarrow> parsed \<Rightarrow> string" where
  "explanationPrompt problem p = template
     [''Explain this mathematical solution in clear, educational terms:'',
      [],
      ''Problem: '' @ problem,
      ''Operation: '' @ pOperation p,
      ''Expression: '' @ pExpression p,
      ''Result: '' @ pResult p,
      ''Steps: '' @ pSteps p,
      [],
      ''Provide a friendly explanation that helps someone understand:'',
      ''1. What type of problem this is'',
      ''2. Why the answer is correct'',
      ''3. Key concepts involved'',
      [],
      ''Keep it conversational and educational.'']"

definition solveResponse :: "string \<Rightarrow> parsed \<Rightarrow> string \<Rightarrow> string \<Rightarrow> jsval" where
  "solveResponse problem p explanation geminiResponse =
     JObj [(''success'', JBool True),
           (''originalProblem'', JStr problem),
           (''analysis'', JObj [(''operation'', JStr (pOperation p)),
                                (''expression'', JStr (pExpression p)),
                                (''context'', JStr (''Solving '' @ pOperation p @ '' problem''))]),
           (''calculation'', JObj [(''method'', JStr ''gemini-ai''),
                                   (''result'', JStr (pResult p)),
                                   (''operation'', JStr (pOperation p)),
                                   (''steps'', JStr (pSteps p))]),
           (''explanation'', JStr explanation),
           (''rawGeminiResponse'', JStr geminiResponse)]"

text \<open>
  The body of the outer \<open>try\<close> after the input guard (lines 34 to 123): the calls made,
  and either the message of the error thrown or the object passed to \<open>res.json\<close>.
\<close>

definition solveTry :: "completionClient \<Rightarrow> string \<Rightarrow> call list \<times> (string + jsval)" where
  "solveTry generateContent problem =
     (let log1 = [GenerateContent (geminiPrompt problem)] in
      case generateContent [] (geminiPrompt problem) of
        Inl msg \<Rightarrow> (log1, Inl msg)
      | Inr geminiResponse \<Rightarrow>
          (let p = parseStructured problem geminiResponse in
           if derivativeIsNumber p then (log1, Inl validationMessage)
           else
             (let log2 = log1 @ [GenerateContent (explanationPrompt problem p)] in
              case generateContent log1 (explanationPrompt problem p) of
                Inl msg \<Rightarrow> (log2, Inl msg)
              | Inr explanation \<Rightarrow>
                  (log2, Inr (solveResponse problem p explanation geminiResponse)))))"

definition fallbackPrompt :: "string \<Rightarrow> string" where
  "fallbackPrompt problem = ''Solve this math problem: '' @ problem"

definition fallbackResponseBody :: "string \<Rightarrow> string \<Rightarrow> jsval" where
  "fallbackResponseBody problem fallbackResponse =
     JObj [(''success'', JBool True),
           (''originalProblem'', JStr problem),
           (''analysis'', JObj [(''operation'', JStr ''general''),
                                (''expression'', JStr problem),
                                (''context'', JStr ''Fallback solution'')]),
           (''calculation'', JObj [(''method'', JStr ''gemini-fallback''),
                                   (''result'', JStr fallbackResponse),
                                   (''operation'', JStr ''solve'')]),
           (''explanation'', JStr ''Used fallback method to solve the problem.''),
           (''rawGeminiResponse'', JStr fallbackResponse)]"

definition failureBody :: "string \<Rightarrow> jsval" where
  "failureBody details =
     JObj [(''success'', JBool False),
           (''error'', JStr ''Failed to solve math problem''),
           (''details'', JStr details)]"

definition missingProblem :: "response \<Rightarrow> response" where
  "missingProblem res =
     json (JObj [(''error'', JStr ''Problem statement is required'')]) (status 400 res)"

text \<open>The handler of \<open>POST /solve\<close> (lines 26 to 151).\<close>

definition solve :: "completionClient \<Rightarrow> request \<Rightarrow> response \<Rightarrow> call list \<times> response" where
  "solve generateContent req res =
     (case bodyProblem (reqBody req) of
        None \<Rightarrow> ([], missingProblem res)
      | Some problem \<Rightarrow>
          if problem = [] then ([], missingProblem res)
          else
            (case solveTry generateContent problem of
               (log, Inr response) \<Rightarrow> (log, json response res)
             | (log, Inl message) \<Rightarrow>
                 (let log' = log @ [GenerateContent (fallbackPrompt problem)] in
                  case generateContent log (fallbackPrompt problem) of
                    Inr fallbackResponse \<Rightarrow>
                      (log', json (fallbackResponseBody problem fallbackResponse) res)
                  | Inl fallbackMessage \<Rightarrow>
                      (log', json (failureBody message) (status 500 res)))))"

text \<open>\<open>GET /health\<close> (lines 381 to 389); the argument is \<open>process.env.GEMINI_API_KEY\<close>.\<close>

definition truthy :: "string option \<Rightarrow> bool" where
  "truthy v = (case v of None \<Rightarrow> False | Some s \<Rightarrow> s \<noteq> [])"

definition health :: "string option \<Rightarrow> response \<Rightarrow> call list \<times> response" where
  "health GEMINI_API_KEY res =
     ([], json (JObj [(''status'', JStr ''healthy''),
                      (''services'',
                       JObj [(''gemini'', JBool (truthy GEMINI_API_KEY)),
                             (''method'', JStr ''gemini-only (newton api removed for reliability)'')])])
            res)"

section \<open>server1.js: the dual-API variant\<close>

definition NEWTON_API_BASE :: string where
  "NEWTON_API_BASE = ''https://newton.now.sh/api/v2''"

definition NEWTON_OPERATIONS :: "(string \<times> string) list" where
  "NEWTON_OPERATIONS =
     [(''simplify'', ''simplify''),
      (''factor'', ''factor''),
      (''derive'', ''derive''),
      (''integrate'', ''integrate''),
      (''zeroes'', ''zeroes''),
      (''tangent'', ''tangent''),
      (''area'', ''area''),
      (''cosine'', ''cos''),
      (''sine'', ''sin''),
      (''tangent_trig'', ''tan''),
      (''arccos'', ''arccos''),
      (''arcsin'', ''arcsin''),
      (''arctan'', ''arctan''),
      (''abs'', ''abs''),
      (''log'', ''log'')]"

text \<open>
  \<open>obj[k]\<close> on an object literal: an own property, else a property inherited from
  \<open>Object.prototype\<close>, else \<open>undefined\<close> (\<open>None\<close>).
\<close>

definition objectPrototypeKeys :: "string list" where
  "objectPrototypeKeys =
     [''constructor'', ''__defineGetter__'', ''__defineSetter__'', ''hasOwnProperty'',
      ''__lookupGetter__'', ''__lookupSetter__'', ''isPrototypeOf'', ''propertyIsEnumerable'',
      ''toString'', ''valueOf'', ''__proto__'', ''toLocaleString'']"

definition getProperty :: "(string \<times> string) list \<Rightarrow> string \<Rightarrow> jsval option" where
  "getProperty obj k =
     (case map_of obj k of
        Some v \<Rightarrow> Some (JStr v)
      | None \<Rightarrow> if k \<in> set objectPrototypeKeys then Some (JInherited k) else None)"

text \<open>\<open>v || d\<close>: \<open>undefined\<close>, the empty string and \<open>false\<close> give \<open>d\<close>.\<close>

definition orElse :: "jsval option \<Rightarrow> jsval \<Rightarrow> jsval" where
  "orElse v d =
     (case v of None \<Rightarrow> d
      | Some (JStr s) \<Rightarrow> if s = [] then d else JStr s
      | Some (JBool b) \<Rightarrow> if b then JBool b else d
      | Some w \<Rightarrow> w)"

text \<open>The string that a template literal makes of a value.\<close>

definition toStringJs :: "jsval \<Rightarrow> string" where
  "toStringJs v =
     (case v of
        JStr s \<Rightarrow> s
      | JBool b \<Rightarrow> if b then ''true'' else ''false''
      | JObj kvs \<Rightarrow> ''[object Object]''
      | JInherited k \<Rightarrow>
          if k = ''__proto__'' then ''[object Object]''
          else if k = ''constructor'' then ''function Object() { [native code] }''
          else ''function '' @ k @ ''() { [native code] }'')"

text \<open>
  \<open>encodeURIComponent\<close> on code units below 256: letters, digits and \<open>-_.!~*'()\<close> stay,
  every other character becomes the percent-encoded bytes of its UTF-8 form.
\<close>

definition uriUnreserved :: "char \<Rightarrow> bool" where
  "uriUnreserved c =
     ((48 \<le> code c \<and> code c \<le> 57) \<or> (65 \<le> code c \<and> code c \<le> 90) \<or> (97 \<le> code c \<and> code c \<le> 122)
      \<or> code c \<in> {45, 95, 46, 33, 126, 42, 39, 40, 41})"

definition hexDigit :: "nat \<Rightarrow> char" where
  "hexDigit n = (if n < 10 then char_of (48 + n) else char_of (55 + n))"

definition percent :: "nat \<Rightarrow> string" where
  "percent b = [CHR ''%'', hexDigit (b div 16), hexDigit (b mod 16)]"

definition utf8 :: "char \<Rightarrow> nat list" where
  "utf8 c = (if code c < 128 then [code c] else [192 + code c div 64, 128 + code c mod 64])"

definition encodeURIComponent :: "string \<Rightarrow> string" where
  "encodeURIComponent s =
     concat (map (\<lambda>c. if uriUnreserved c then [c] else concat (map percent (utf8 c))) s)"

text \<open>
  \<open>callNewtonAPI\<close> (lines 48 to 55): one GET request; an error is thrown again with
  the prefix \<open>Newton API error: \<close>.
\<close>

definition newtonUrl :: "jsval \<Rightarrow> string \<Rightarrow> string" where
  "newtonUrl operation expression =
     NEWTON_API_BASE @ ''/'' @ toStringJs operation @ ''/'' @ encodeURIComponent expression"

definition callNewtonAPI ::
  "httpClient \<Rightarrow> call list \<Rightarrow> jsval \<Rightarrow> string \<Rightarrow> call list \<times> (string + newtonData)" where
  "callNewtonAPI axiosGet log operation expression =
     (let url = newtonUrl operation expression
      in case axiosGet log url of
           Inl msg \<Rightarrow> (log @ [AxiosGet url], Inl (''Newton API error: '' @ msg))
         | Inr d \<Rightarrow> (log @ [AxiosGet url], Inr d))"

definition geminiPrompt1 :: "string \<Rightarrow> string" where
  "geminiPrompt1 problem = template
     [''    Analyze this math problem and determine:'',
      ''    1. What mathematical operation is needed (simplify, factor, derive, integrate, find zeros, etc.)'',
      ''    2. Extract the mathematical expression in a clean format'',
      ''    3. Provide context about the problem type'',
      ''    '',
      ''    Problem: '' @ DQ @ problem @ DQ,
      ''    '',
      ''    Respond in this format:'',
      ''    Operation: [operation name]'',
      ''    Expression: [clean mathematical expression]'',
      ''    Context: [brief explanation of what needs to be solved]''] @ ''    ''"

text \<open>Lines 115 to 124: the fields of the analysis and the Newton operation.\<close>

record analysed =
  aOperation :: string
  aExpression :: string
  aContext :: string

definition parseAnalysis :: "string \<Rightarrow> string \<Rightarrow> analysed" where
  "parseAnalysis problem geminiResponse =
     (let operationMatch = matchGroup ''Operation:'' dotPlus geminiResponse;
          expressionMatch = matchGroup ''Expression:'' dotPlus geminiResponse;
          contextMatch = matchGroup ''Context:'' dotPlus geminiResponse
      in \<lparr>aOperation = (case operationMatch of Some cap \<Rightarrow> toLowerCase (trim cap)
                                              | None \<Rightarrow> ''simplify''),
          aExpression = fieldOr expressionMatch problem,
          aContext = fieldOr contextMatch ''Mathematical computation''\<rparr>)"

definition newtonOpOf :: "string \<Rightarrow> jsval" where
  "newtonOpOf operation = orElse (getProperty NEWTON_OPERATIONS operation) (JStr ''simplify'')"

definition explanationPrompt1 :: "string \<Rightarrow> analysed \<Rightarrow> newtonData \<Rightarrow> string" where
  "explanationPrompt1 problem a newtonResult = template
     [''    Explain this mathematical solution in simple terms:'',
      ''    '',
      ''    Original Problem: '' @ problem,
      ''    Operation Performed: '' @ aOperation a,
      ''    Expression: '' @ aExpression a,
      ''    Result: '' @ dataResult newtonResult,
      ''    '',
      ''    Provide a clear, step-by-step explanation of how this solution was obtained.''] @ ''    ''"

definition solveResponse1 :: "string \<Rightarrow> analysed \<Rightarrow> jsval \<Rightarrow> newtonData \<Rightarrow> string \<Rightarrow> string \<Rightarrow> jsval" where
  "solveResponse1 problem a newtonOp newtonResult explanation geminiResponse =
     JObj [(''success'', JBool True),
           (''originalProblem'', JStr problem),
           (''analysis'', JObj [(''operation'', JStr (aOperation a)),
                                (''expression'', JStr (aExpression a)),
                                (''context'', JStr (aContext a))]),
           (''calculation'', JObj [(''method'', newtonOp),
                                   (''result'', JStr (dataResult newtonResult)),
                                   (''operation'', JStr (dataOperation newtonResult))]),
           (''explanation'', JStr explanation),
           (''geminiAnalysis'', JStr geminiResponse)]"

text \<open>Step 3 (lines 135 to 168), entered with the calls made up to then.\<close>

definition explain1 ::
  "completionClient \<Rightarrow> call list \<Rightarrow> string \<Rightarrow> analysed \<Rightarrow> jsval \<Rightarrow> newtonData \<Rightarrow> string
     \<Rightarrow> call list \<times> (string + jsval)" where
  "explain1 generateContent log problem a newtonOp newtonResult geminiResponse =
     (let log' = log @ [GenerateContent (explanationPrompt1 problem a newtonResult)] in
      case generateContent log (explanationPrompt1 problem a newtonResult) of
        Inl msg \<Rightarrow> (log', Inl msg)
      | Inr explanation \<Rightarrow>
          (log', Inr (solveResponse1 problem a newtonOp newtonResult explanation geminiResponse)))"

text \<open>The body of the \<open>try\<close> after the input guard (lines 96 to 168).\<close>

definition solveTry1 ::
  "completionClient \<Rightarrow> httpClient \<Rightarrow> string \<Rightarrow> call list \<times> (string + jsval)" where
  "solveTry1 generateContent axiosGet problem =
     (let log1 = [GenerateContent (geminiPrompt1 problem)] in
      case generateContent [] (geminiPrompt1 problem) of
        Inl msg \<Rightarrow> (log1, Inl msg)
      | Inr geminiResponse \<Rightarrow>
          (let a = parseAnalysis problem geminiResponse;
               newtonOp = newtonOpOf (aOperation a)
           in case callNewtonAPI axiosGet log1 newtonOp (aExpression a) of
                (log2, Inr newtonResult) \<Rightarrow>
                  explain1 generateContent log2 problem a newtonOp newtonResult geminiResponse
              | (log2, Inl newtonError) \<Rightarrow>
                  (case callNewtonAPI axiosGet log2 (JStr ''simplify'') (aExpression a) of
                     (log3, Inr newtonResult) \<Rightarrow>
                       explain1 generateContent log3 problem a newtonOp newtonResult geminiResponse
                   | (log3, Inl msg) \<Rightarrow> (log3, Inl msg))))"

text \<open>The handler of \<open>POST /solve\<close> (lines 88 to 178).\<close>

definition solve1 ::
  "completionClient \<Rightarrow> httpClient \<Rightarrow> request \<Rightarrow> response \<Rightarrow> call list \<times> response" where
  "solve1 generateContent axiosGet req res =
     (case bodyProblem (reqBody req) of
        None \<Rightarrow> ([], missingProblem res)
      | Some problem \<Rightarrow>
          if problem = [] then ([], missingProblem res)
          else
            (case solveTry1 generateContent axiosGet problem of
               (log, Inr response) \<Rightarrow> (log, json response res)
             | (log, Inl message) \<Rightarrow> (log, json (failureBody message) (status 500 res))))"

text \<open>\<open>GET /health\<close> (lines 397 to 405).\<close>

definition health1 :: "string option \<Rightarrow> response \<Rightarrow> call list \<times> response" where
  "health1 GEMINI_API_KEY res =
     ([], json (JObj [(''status'', JStr ''healthy''),
                      (''services'',
                       JObj [(''gemini'', JBool (truthy GEMINI_API_KEY)),
                             (''newton'', JStr ''available (no key required)'')])])
            res)"

section \<open>The parser\<close>

subsection \<open>The regular expressions\<close>

lemma lineTerminator_whiteSpace: "isLineTerminator c \<Longrightarrow> isWhiteSpace c"
  by (auto simp: isLineTerminator_def isWhiteSpace_def)

lemma matchLiteral_Some:
  "matchLiteral label s = Some rest \<Longrightarrow> \<exists>lab. s = lab @ rest \<and> list_all2 ciEq label lab"
proof (induction label s rule: matchLiteral.induct)
  case (1 s)
  then show ?case by simp
next
  case (2 p ps)
  then show ?case by simp
next
  case (3 p ps c cs)
  then have "ciEq p c" and "matchLiteral ps cs = Some rest"
    by (auto split: if_splits)
  with 3 obtain lab where "cs = lab @ rest" "list_all2 ciEq ps lab" by blast
  with \<open>ciEq p c\<close> have "c # cs = (c # lab) @ rest \<and> list_all2 ciEq (p # ps) (c # lab)" by simp
  then show ?case by blast
qed

lemma matchLiteral_append:
  "list_all2 ciEq label lab \<Longrightarrow> matchLiteral label (lab @ rest) = Some rest"
  by (induction label lab rule: list_all2_induct) auto

lemma hasLabel_iff:
  "hasLabel label raw \<longleftrightarrow> (\<exists>pre lab rest. raw = pre @ lab @ rest \<and> list_all2 ciEq label lab)"
proof (induction raw)
  case Nil
  show ?case
  proof (cases label)
    case Nil then show ?thesis by simp
  next
    case (Cons p ps) then show ?thesis by simp
  qed
next
  case (Cons c cs)
  show ?case
  proof
    assume "hasLabel label (c # cs)"
    then consider "matchLiteral label (c # cs) \<noteq> None" | "hasLabel label cs" by auto
    then show "\<exists>pre lab rest. c # cs = pre @ lab @ rest \<and> list_all2 ciEq label lab"
    proof cases
      case 1
      then obtain rest where "matchLiteral label (c # cs) = Some rest" by auto
      from matchLiteral_Some[OF this] obtain lab where "c # cs = [] @ lab @ rest" "list_all2 ciEq label lab"
        by auto
      then show ?thesis by blast
    next
      case 2
      with Cons obtain pre lab rest where "cs = pre @ lab @ rest" "list_all2 ciEq label lab" by blast
      then have "c # cs = (c # pre) @ lab @ rest" by simp
      with \<open>list_all2 ciEq label lab\<close> show ?thesis by blast
    qed
  next
    assume "\<exists>pre lab rest. c # cs = pre @ lab @ rest \<and> list_all2 ciEq label lab"
    then obtain pre lab rest where e: "c # cs = pre @ lab @ rest" and l: "list_all2 ciEq label lab"
      by blast
    show "hasLabel label (c # cs)"
    proof (cases pre)
      case Nil
      with e l have "matchLiteral label (c # cs) = Some rest"
        by (simp add: matchLiteral_append)
      then show ?thesis by simp
    next
      case (Cons d pre')
      with e have "cs = pre' @ lab @ rest" by simp
      with l Cons.IH have "hasLabel label cs" by blast
      then show ?thesis by simp
    qed
  qed
qed

lemma matchAt_None: "matchLiteral label s = None \<Longrightarrow> matchAt label k s = None"
  by (simp add: matchAt_def)

lemma matchGroup_absent: "\<not> hasLabel label raw \<Longrightarrow> matchGroup label k raw = None"
  by (induction raw) (auto simp: matchAt_def)

lemma matchLiteral_shorter:
  "matchLiteral label (s @ t) \<noteq> None \<Longrightarrow> length label \<le> length s \<Longrightarrow> matchLiteral label s \<noteq> None"
proof (induction label s rule: matchLiteral.induct)
  case (1 s) then show ?case by simp
next
  case (2 p ps) then show ?case by simp
next
  case (3 p ps c cs)
  then show ?case by (auto split: if_splits)
qed

lemma matchGroup_skip:
  assumes "\<not> hasLabel label (pre @ butlast lab)" and "length lab = length label" and "label \<noteq> []"
  shows "matchGroup label k (pre @ lab @ rest) = matchGroup label k (lab @ rest)"
  using assms(1)
proof (induction pre)
  case Nil
  then show ?case by simp
next
  case (Cons c pre)
  from assms(2,3) have len: "length label \<le> length ((c # pre) @ butlast lab)" by simp
  from Cons.prems have n: "matchLiteral label ((c # pre) @ butlast lab) = None" by simp
  have "matchLiteral label ((c # pre) @ lab @ rest) = None"
  proof (rule ccontr)
    assume a: "matchLiteral label ((c # pre) @ lab @ rest) \<noteq> None"
    from assms(2,3) have "lab \<noteq> []" by auto
    then have "lab @ rest = butlast lab @ ([last lab] @ rest)"
      by (metis append_assoc append_butlast_last_id)
    then have eq: "(c # pre) @ lab @ rest = ((c # pre) @ butlast lab) @ ([last lab] @ rest)"
      by (simp only: append_assoc)
    have "matchLiteral label (((c # pre) @ butlast lab) @ ([last lab] @ rest)) \<noteq> None"
      using a unfolding eq .
    from matchLiteral_shorter[OF this len] n show False by simp
  qed
  then have "matchAt label k (c # pre @ lab @ rest) = None"
    by (simp add: matchAt_def)
  moreover from Cons.prems have "\<not> hasLabel label (pre @ butlast lab)" by simp
  ultimately show ?case using Cons.IH by simp
qed

lemma matchGroup_first:
  assumes "list_all2 ciEq label lab" and "label \<noteq> []"
    and "\<not> hasLabel label (pre @ butlast lab)"
    and "spacesThen k rest = Some cap"
  shows "matchGroup label k (pre @ lab @ rest) = Some cap"
proof -
  from assms(1) have len: "length lab = length label" by (simp add: list_all2_lengthD)
  from assms(1) have "matchAt label k (lab @ rest) = Some cap"
    by (simp add: matchAt_def matchLiteral_append assms(4))
  moreover from len assms(2) obtain c cs where "lab @ rest = c # cs" by (cases lab) auto
  ultimately have "matchGroup label k (lab @ rest) = Some cap" by simp
  with matchGroup_skip[OF assms(3) len assms(2)] show ?thesis by simp
qed

lemma spacesThen_dotPlus:
  "dropWhile isWhiteSpace rest \<noteq> [] \<Longrightarrow>
   spacesThen dotPlus rest = Some (takeWhile (\<lambda>c. \<not> isLineTerminator c) (dropWhile isWhiteSpace rest))"
proof (induction rest)
  case Nil
  then show ?case by simp
next
  case (Cons c cs)
  show ?case
  proof (cases "isWhiteSpace c")
    case True
    with Cons show ?thesis by simp
  next
    case False
    then have "\<not> isLineTerminator c" using lineTerminator_whiteSpace by blast
    with False show ?thesis by (simp add: dotPlus_def)
  qed
qed

lemma trim_whiteSpace_Cons: "isWhiteSpace c \<Longrightarrow> trim (c # cs) = trim cs"
  by (simp add: trim_def)

lemma spacesThen_anyPlus:
  "rest \<noteq> [] \<Longrightarrow> \<exists>cap. spacesThen anyPlus rest = Some cap \<and> trim cap = trim rest"
proof (induction rest)
  case Nil
  then show ?case by simp
next
  case (Cons c cs)
  show ?case
  proof (cases "isWhiteSpace c")
    case False
    then show ?thesis by (simp add: anyPlus_def)
  next
    case True
    show ?thesis
    proof (cases cs)
      case Nil
      with True show ?thesis by (simp add: anyPlus_def)
    next
      case (Cons d ds)
      with Cons.IH obtain cap where "spacesThen anyPlus cs = Some cap" "trim cap = trim cs" by auto
      with True show ?thesis by (simp add: trim_whiteSpace_Cons)
    qed
  qed
qed

lemma valueAfter_same_line:
  "\<not> list_all isWhiteSpace (takeWhile (\<lambda>c. \<not> isLineTerminator c) rest) \<Longrightarrow>
   valueAfter rest = remainderOfLine rest"
proof (induction rest)
  case Nil
  then show ?case by simp
next
  case (Cons c cs)
  show ?case
  proof (cases "isWhiteSpace c")
    case False
    then show ?thesis by (simp add: valueAfter_def remainderOfLine_def)
  next
    case True
    with Cons.prems have nl: "\<not> isLineTerminator c" by (auto split: if_splits)
    with Cons.prems True have "\<not> list_all isWhiteSpace (takeWhile (\<lambda>c. \<not> isLineTerminator c) cs)"
      by simp
    with Cons.IH have "valueAfter cs = remainderOfLine cs" by simp
    with True nl show ?thesis
      by (simp add: valueAfter_def remainderOfLine_def trim_whiteSpace_Cons)
  qed
qed

lemma field_dotPlus:
  assumes "list_all2 ciEq label lab" and "label \<noteq> []"
    and "\<not> hasLabel label (pre @ butlast lab)"
    and "dropWhile isWhiteSpace rest \<noteq> []"
  shows "fieldOr (matchGroup label dotPlus (pre @ lab @ rest)) dflt = valueAfter rest"
  using matchGroup_first[OF assms(1-3) spacesThen_dotPlus[OF assms(4)]]
  by (simp add: fieldOr_def valueAfter_def)

lemma field_anyPlus:
  assumes "list_all2 ciEq label lab" and "label \<noteq> []"
    and "\<not> hasLabel label (pre @ butlast lab)"
    and "rest \<noteq> []"
  shows "fieldOr (matchGroup label anyPlus (pre @ lab @ rest)) dflt = trim rest"
proof -
  from spacesThen_anyPlus[OF assms(4)] obtain cap
    where c: "spacesThen anyPlus rest = Some cap" and t: "trim cap = trim rest" by blast
  from matchGroup_first[OF assms(1-3) c] t show ?thesis
    by (simp add: fieldOr_def)
qed

lemma field_absent: "\<not> hasLabel label raw \<Longrightarrow> fieldOr (matchGroup label k raw) dflt = dflt"
  by (simp add: matchGroup_absent fieldOr_def)

lemma pOperation_eq [simp]:
  "pOperation (parseStructured problem raw) = fieldOr (matchGroup ''OPERATION:'' dotPlus raw) ''unknown''"
  by (simp add: parseStructured_def)
lemma pExpression_eq [simp]:
  "pExpression (parseStructured problem raw) = fieldOr (matchGroup ''EXPRESSION:'' dotPlus raw) problem"
  by (simp add: parseStructured_def)
lemma pResult_eq [simp]:
  "pResult (parseStructured problem raw) = fieldOr (matchGroup ''RESULT:'' dotPlus raw) ''Could not determine result''"
  by (simp add: parseStructured_def)
lemma pSteps_eq [simp]:
  "pSteps (parseStructured problem raw) = fieldOr (matchGroup ''STEPS:'' anyPlus raw) ''Steps not provided''"
  by (simp add: parseStructured_def)

lemma specExample_fields:
  "fieldOr (matchGroup ''OPERATION:'' dotPlus specExample) d1 = ''derivative''"
  "fieldOr (matchGroup ''EXPRESSION:'' dotPlus specExample) d2 = ''x^2''"
  "fieldOr (matchGroup ''RESULT:'' dotPlus specExample) d3 = ''2x''"
  "fieldOr (matchGroup ''STEPS:'' anyPlus specExample) d4 = ''apply power rule''"
  by code_simp+

subsection \<open>What the fields hold\<close>

text \<open>
  Claim C6, as amended. On the example of the specification the parser yields exactly
  \<open>derivative\<close>, \<open>x^2\<close>, \<open>2x\<close> and \<open>apply power rule\<close>. In general, let the
  text be \<open>pre @ lab @ rest\<close> where \<open>lab\<close> is the label in any letter case and no
  occurrence of the label starts inside \<open>pre\<close> (so this is its first occurrence; what
  \<open>rest\<close> holds, further labels included, does not matter). A single-line field is
  then \<open>valueAfter rest\<close>, provided \<open>rest\<close> holds more than white space: the white
  space after the label is skipped, line breaks included, and the rest of the line
  reached in that way is taken and trimmed. That is the remainder of the label's own
  line whenever that remainder is not blank. The steps field is the whole of \<open>rest\<close>,
  trimmed, provided \<open>rest\<close> is not empty.
\<close>

theorem parser_fields:
  "parseStructured problem specExample =
     \<lparr>pOperation = ''derivative'', pExpression = ''x^2'', pResult = ''2x'',
      pSteps = ''apply power rule''\<rparr>
   \<and> (list_all2 ciEq ''OPERATION:'' lab \<and> \<not> hasLabel ''OPERATION:'' (pre @ butlast lab)
        \<and> dropWhile isWhiteSpace rest \<noteq> []
      \<longrightarrow> pOperation (parseStructured problem (pre @ lab @ rest)) = valueAfter rest)
   \<and> (list_all2 ciEq ''EXPRESSION:'' lab \<and> \<not> hasLabel ''EXPRESSION:'' (pre @ butlast lab)
        \<and> dropWhile isWhiteSpace rest \<noteq> []
      \<longrightarrow> pExpression (parseStructured problem (pre @ lab @ rest)) = valueAfter rest)
   \<and> (list_all2 ciEq ''RESULT:'' lab \<and> \<not> hasLabel ''RESULT:'' (pre @ butlast lab)
        \<and> dropWhile isWhiteSpace rest \<noteq> []
      \<longrightarrow> pResult (parseStructured problem (pre @ lab @ rest)) = valueAfter rest)
   \<and> (list_all2 ciEq ''STEPS:'' lab \<and> \<not> hasLabel ''STEPS:'' (pre @ butlast lab) \<and> rest \<noteq> []
      \<longrightarrow> pSteps (parseStructured problem (pre @ lab @ rest)) = trim rest)
   \<and> (\<not> list_all isWhiteSpace (takeWhile (\<lambda>c. \<not> isLineTerminator c) rest)
      \<longrightarrow> valueAfter rest = remainderOfLine rest)"
proof -
  have ex: "parseStructured problem specExample =
     \<lparr>pOperation = ''derivative'', pExpression = ''x^2'', pResult = ''2x'',
      pSteps = ''apply power rule''\<rparr>"
    by (simp add: parseStructured_def specExample_fields)
  show ?thesis
    using ex by (simp add: field_dotPlus field_anyPlus valueAfter_same_line)
qed

theorem parser_fields_witness:
  "pResult (parseStructured ''d/dx''
      ((''OPERATION: derivative'' @ LF) @ ''result:'' @ (LF @ ''2x + 3'' @ LF @ ''RESULT: 9''))) = ''2x + 3''
   \<and> pOperation (parseStructured ''d/dx'' ([] @ ''Operation:'' @ '' derive  '')) = ''derive''
   \<and> pExpression (parseStructured ''d/dx'' ([] @ ''expression:'' @ '' x^2'')) = ''x^2''
   \<and> pSteps (parseStructured ''d/dx''
      ((''RESULT: 2x'' @ LF) @ ''Steps:'' @ (LF @ ''1. power rule'' @ LF @ ''2. done'' @ LF)))
       = ''1. power rule'' @ LF @ ''2. done''
   \<and> valueAfter '' 2x + 3 '' = remainderOfLine '' 2x + 3 ''"
proof -
  have r: "list_all2 ciEq ''RESULT:'' ''result:''
         \<and> \<not> hasLabel ''RESULT:'' ((''OPERATION: derivative'' @ LF) @ butlast ''result:'')
         \<and> dropWhile isWhiteSpace (LF @ ''2x + 3'' @ LF @ ''RESULT: 9'') \<noteq> []"
    by code_simp
  have rv: "valueAfter (LF @ ''2x + 3'' @ LF @ ''RESULT: 9'') = ''2x + 3''"
    by code_simp
  have o: "list_all2 ciEq ''OPERATION:'' ''Operation:''
         \<and> \<not> hasLabel ''OPERATION:'' ([] @ butlast ''Operation:'')
         \<and> dropWhile isWhiteSpace '' derive  '' \<noteq> []"
    by code_simp
  have ov: "valueAfter '' derive  '' = ''derive''"
    by code_simp
  have e: "list_all2 ciEq ''EXPRESSION:'' ''expression:''
         \<and> \<not> hasLabel ''EXPRESSION:'' ([] @ butlast ''expression:'')
         \<and> dropWhile isWhiteSpace '' x^2'' \<noteq> []"
    by code_simp
  have ev: "valueAfter '' x^2'' = ''x^2''"
    by code_simp
  have s: "list_all2 ciEq ''STEPS:'' ''Steps:''
         \<and> \<not> hasLabel ''STEPS:'' ((''RESULT: 2x'' @ LF) @ butlast ''Steps:'')
         \<and> LF @ ''1. power rule'' @ LF @ ''2. done'' @ LF \<noteq> []"
    by code_simp
  have sv: "trim (LF @ ''1. power rule'' @ LF @ ''2. done'' @ LF) = ''1. power rule'' @ LF @ ''2. done''"
    by code_simp
  have l: "\<not> list_all isWhiteSpace (takeWhile (\<lambda>c. \<not> isLineTerminator c) '' 2x + 3 '')"
    by code_simp
  from parser_fields[of "''d/dx''" "''result:''" "''OPERATION: derivative'' @ LF"
         "LF @ ''2x + 3'' @ LF @ ''RESULT: 9''"] r rv
  have 1: "pResult (parseStructured ''d/dx''
      ((''OPERATION: derivative'' @ LF) @ ''result:'' @ (LF @ ''2x + 3'' @ LF @ ''RESULT: 9''))) = ''2x + 3''"
    by metis
  from parser_fields[of "''d/dx''" "''Operation:''" "[]" "'' derive  ''"] o ov
  have 2: "pOperation (parseStructured ''d/dx'' ([] @ ''Operation:'' @ '' derive  '')) = ''derive''"
    by metis
  from parser_fields[of "''d/dx''" "''expression:''" "[]" "'' x^2''"] e ev
  have 3: "pExpression (parseStructured ''d/dx'' ([] @ ''expression:'' @ '' x^2'')) = ''x^2''"
    by metis
  from parser_fields[of "''d/dx''" "''Steps:''" "''RESULT: 2x'' @ LF"
         "LF @ ''1. power rule'' @ LF @ ''2. done'' @ LF"] s sv
  have 4: "pSteps (parseStructured ''d/dx''
      ((''RESULT: 2x'' @ LF) @ ''Steps:'' @ (LF @ ''1. power rule'' @ LF @ ''2. done'' @ LF)))
       = ''1. power rule'' @ LF @ ''2. done''"
    by metis
  from parser_fields[of "''d/dx''" "''x''" "[]" "'' 2x + 3 ''"] l
  have 5: "valueAfter '' 2x + 3 '' = remainderOfLine '' 2x + 3 ''"
    by metis
  from 1 2 3 4 5 show ?thesis by blast
qed

text \<open>
  The claim as the specification has it (a single-line field takes the remainder of
  its line) fails when the line of the label is blank after the label: the field is
  then taken from the next line that is not blank.
\<close>

theorem parser_line_counterexample:
  "pResult (parseStructured ''d/dx'' (''OPERATION: derivative'' @ LF @ ''RESULT:'' @ LF @ ''2x + 3''))
     = ''2x + 3''
   \<and> pResult (parseStructured ''d/dx'' (''OPERATION: derivative'' @ LF @ ''RESULT:'' @ LF @ ''2x + 3''))
     \<noteq> remainderOfLine (LF @ ''2x + 3'')"
  by code_simp

lemma aOperation_eq [simp]:
  "aOperation (parseAnalysis problem raw) =
     (case matchGroup ''Operation:'' dotPlus raw of Some cap \<Rightarrow> toLowerCase (trim cap) | None \<Rightarrow> ''simplify'')"
  by (simp add: parseAnalysis_def)
lemma aExpression_eq [simp]:
  "aExpression (parseAnalysis problem raw) = fieldOr (matchGroup ''Expression:'' dotPlus raw) problem"
  by (simp add: parseAnalysis_def)

lemma aOperation_present:
  assumes "list_all2 ciEq ''Operation:'' lab"
    and "\<not> hasLabel ''Operation:'' (pre @ butlast lab)"
    and "dropWhile isWhiteSpace rest \<noteq> []"
  shows "aOperation (parseAnalysis problem (pre @ lab @ rest)) = toLowerCase (valueAfter rest)"
proof -
  have "matchGroup ''Operation:'' dotPlus (pre @ lab @ rest) =
          Some (takeWhile (\<lambda>c. \<not> isLineTerminator c) (dropWhile isWhiteSpace rest))"
    by (rule matchGroup_first[OF assms(1) _ assms(2) spacesThen_dotPlus[OF assms(3)]]) simp
  then show ?thesis
    by (simp add: valueAfter_def)
qed

text \<open>
  Claim C7. Whatever the raw text, a field whose label does not occur in it takes its
  default: \<open>unknown\<close> for the operation (\<open>simplify\<close> in the dual-API variant), the
  problem text for the expression, \<open>Could not determine result\<close> for the result and
  \<open>Steps not provided\<close> for the steps. And a field whose label does occur, with more
  than white space behind its first occurrence, is extracted from there whatever the
  rest of the text holds: nothing is assumed of the other labels, so the field is
  extracted also when any or all of them are missing. A missing label therefore changes
  its own field only. This holds for the four fields of server.js and for the operation
  and the expression of server1.js, whose operation is put in lower case.
\<close>

theorem missing_label_defaults:
  "(\<not> hasLabel ''OPERATION:'' raw \<longrightarrow> pOperation (parseStructured problem raw) = ''unknown'')
   \<and> (\<not> hasLabel ''EXPRESSION:'' raw \<longrightarrow> pExpression (parseStructured problem raw) = problem)
   \<and> (\<not> hasLabel ''RESULT:'' raw \<longrightarrow>
        pResult (parseStructured problem raw) = ''Could not determine result'')
   \<and> (\<not> hasLabel ''STEPS:'' raw \<longrightarrow> pSteps (parseStructured problem raw) = ''Steps not provided'')
   \<and> (\<not> hasLabel ''Operation:'' raw \<longrightarrow> aOperation (parseAnalysis problem raw) = ''simplify'')
   \<and> (\<not> hasLabel ''Expression:'' raw \<longrightarrow> aExpression (parseAnalysis problem raw) = problem)
   \<and> (list_all2 ciEq ''OPERATION:'' lab \<and> \<not> hasLabel ''OPERATION:'' (pre @ butlast lab)
        \<and> dropWhile isWhiteSpace rest \<noteq> []
      \<longrightarrow> pOperation (parseStructured problem (pre @ lab @ rest)) = valueAfter rest)
   \<and> (list_all2 ciEq ''EXPRESSION:'' lab \<and> \<not> hasLabel ''EXPRESSION:'' (pre @ butlast lab)
        \<and> dropWhile isWhiteSpace rest \<noteq> []
      \<longrightarrow> pExpression (parseStructured problem (pre @ lab @ rest)) = valueAfter rest)
   \<and> (list_all2 ciEq ''RESULT:'' lab \<and> \<not> hasLabel ''RESULT:'' (pre @ butlast lab)
        \<and> dropWhile isWhiteSpace rest \<noteq> []
      \<longrightarrow> pResult (parseStructured problem (pre @ lab @ rest)) = valueAfter rest)
   \<and> (list_all2 ciEq ''STEPS:'' lab \<and> \<not> hasLabel ''STEPS:'' (pre @ butlast lab) \<and> rest \<noteq> []
      \<longrightarrow> pSteps (parseStructured problem (pre @ lab @ rest)) = trim rest)
   \<and> (list_all2 ciEq ''Operation:'' lab \<and> \<not> hasLabel ''Operation:'' (pre @ butlast lab)
        \<and> dropWhile isWhiteSpace rest \<noteq> []
      \<longrightarrow> aOperation (parseAnalysis problem (pre @ lab @ rest)) = toLowerCase (valueAfter rest))
   \<and> (list_all2 ciEq ''Expression:'' lab \<and> \<not> hasLabel ''Expression:'' (pre @ butlast lab)
        \<and> dropWhile isWhiteSpace rest \<noteq> []
      \<longrightarrow> aExpression (parseAnalysis problem (pre @ lab @ rest)) = valueAfter rest)"
proof -
  have absent:
    "\<not> hasLabel ''OPERATION:'' raw \<longrightarrow> pOperation (parseStructured problem raw) = ''unknown''"
    "\<not> hasLabel ''EXPRESSION:'' raw \<longrightarrow> pExpression (parseStructured problem raw) = problem"
    "\<not> hasLabel ''RESULT:'' raw \<longrightarrow>
        pResult (parseStructured problem raw) = ''Could not determine result''"
    "\<not> hasLabel ''STEPS:'' raw \<longrightarrow> pSteps (parseStructured problem raw) = ''Steps not provided''"
    "\<not> hasLabel ''Operation:'' raw \<longrightarrow> aOperation (parseAnalysis problem raw) = ''simplify''"
    "\<not> hasLabel ''Expression:'' raw \<longrightarrow> aExpression (parseAnalysis problem raw) = problem"
    by (simp_all add: matchGroup_absent fieldOr_def)
  have present:
    "list_all2 ciEq ''OPERATION:'' lab \<and> \<not> hasLabel ''OPERATION:'' (pre @ butlast lab)
        \<and> dropWhile isWhiteSpace rest \<noteq> []
      \<longrightarrow> pOperation (parseStructured problem (pre @ lab @ rest)) = valueAfter rest"
    "list_all2 ciEq ''EXPRESSION:'' lab \<and> \<not> hasLabel ''EXPRESSION:'' (pre @ butlast lab)
        \<and> dropWhile isWhiteSpace rest \<noteq> []
      \<longrightarrow> pExpression (parseStructured problem (pre @ lab @ rest)) = valueAfter rest"
    "list_all2 ciEq ''RESULT:'' lab \<and> \<not> hasLabel ''RESULT:'' (pre @ butlast lab)
        \<and> dropWhile isWhiteSpace rest \<noteq> []
      \<longrightarrow> pResult (parseStructured problem (pre @ lab @ rest)) = valueAfter rest"
    "list_all2 ciEq ''STEPS:'' lab \<and> \<not> hasLabel ''STEPS:'' (pre @ butlast lab) \<and> rest \<noteq> []
      \<longrightarrow> pSteps (parseStructured problem (pre @ lab @ rest)) = trim rest"
    by (simp_all add: field_dotPlus field_anyPlus)
  have dual:
    "list_all2 ciEq ''Operation:'' lab \<and> \<not> hasLabel ''Operation:'' (pre @ butlast lab)
        \<and> dropWhile isWhiteSpace rest \<noteq> []
      \<longrightarrow> aOperation (parseAnalysis problem (pre @ lab @ rest)) = toLowerCase (valueAfter rest)"
    "list_all2 ciEq ''Expression:'' lab \<and> \<not> hasLabel ''Expression:'' (pre @ butlast lab)
        \<and> dropWhile isWhiteSpace rest \<noteq> []
      \<longrightarrow> aExpression (parseAnalysis problem (pre @ lab @ rest)) = valueAfter rest"
    using aOperation_present[of lab pre rest problem]
    by (simp_all add: field_dotPlus)
  from absent present dual show ?thesis
    by blast
qed

theorem missing_label_defaults_witness:
  "pResult (parseStructured ''d/dx x^2'' noResultRaw) = ''Could not determine result''
   \<and> pOperation (parseStructured ''d/dx x^2'' noResultRaw) = ''derivative''
   \<and> pExpression (parseStructured ''d/dx x^2'' noResultRaw) = ''x^2''
   \<and> pSteps (parseStructured ''d/dx x^2'' noResultRaw) = ''apply power rule''
   \<and> pResult (parseStructured ''d/dx x^2'' ([] @ ''result:'' @ '' 2x'')) = ''2x''
   \<and> pOperation (parseStructured ''d/dx x^2'' ([] @ ''result:'' @ '' 2x'')) = ''unknown''
   \<and> pExpression (parseStructured ''d/dx x^2'' ([] @ ''result:'' @ '' 2x'')) = ''d/dx x^2''
   \<and> pSteps (parseStructured ''d/dx x^2'' ([] @ ''result:'' @ '' 2x'')) = ''Steps not provided''
   \<and> aOperation (parseAnalysis ''d/dx x^2'' ([] @ ''Operation:'' @ '' Derive'')) = ''derive''
   \<and> aExpression (parseAnalysis ''d/dx x^2'' ([] @ ''Operation:'' @ '' Derive'')) = ''d/dx x^2''
   \<and> aOperation (parseAnalysis ''d/dx x^2'' ([] @ ''expression:'' @ '' x^2'')) = ''simplify''
   \<and> aExpression (parseAnalysis ''d/dx x^2'' ([] @ ''expression:'' @ '' x^2'')) = ''x^2''"
proof -
  have eo: "[] @ ''OPERATION:'' @ ('' derivative'' @ LF @ ''EXPRESSION: x^2'' @ LF @ ''STEPS: apply power rule'')
              = noResultRaw"
    and ee: "(''OPERATION: derivative'' @ LF) @ ''EXPRESSION:'' @ ('' x^2'' @ LF @ ''STEPS: apply power rule'')
              = noResultRaw"
    and es: "(''OPERATION: derivative'' @ LF @ ''EXPRESSION: x^2'' @ LF) @ ''STEPS:'' @ '' apply power rule''
              = noResultRaw"
    by (simp_all add: noResultRaw_def)
  have ho: "list_all2 ciEq ''OPERATION:'' ''OPERATION:''
          \<and> \<not> hasLabel ''OPERATION:'' ([] @ butlast ''OPERATION:'')
          \<and> dropWhile isWhiteSpace
               ('' derivative'' @ LF @ ''EXPRESSION: x^2'' @ LF @ ''STEPS: apply power rule'') \<noteq> []"
    by code_simp
  have vo: "valueAfter ('' derivative'' @ LF @ ''EXPRESSION: x^2'' @ LF @ ''STEPS: apply power rule'')
              = ''derivative''"
    by code_simp
  have he: "list_all2 ciEq ''EXPRESSION:'' ''EXPRESSION:''
          \<and> \<not> hasLabel ''EXPRESSION:'' ((''OPERATION: derivative'' @ LF) @ butlast ''EXPRESSION:'')
          \<and> dropWhile isWhiteSpace ('' x^2'' @ LF @ ''STEPS: apply power rule'') \<noteq> []"
    by code_simp
  have ve: "valueAfter ('' x^2'' @ LF @ ''STEPS: apply power rule'') = ''x^2''"
    by code_simp
  have hs: "list_all2 ciEq ''STEPS:'' ''STEPS:''
          \<and> \<not> hasLabel ''STEPS:''
               ((''OPERATION: derivative'' @ LF @ ''EXPRESSION: x^2'' @ LF) @ butlast ''STEPS:'')
          \<and> '' apply power rule'' \<noteq> []"
    by code_simp
  have vs: "trim '' apply power rule'' = ''apply power rule''"
    by code_simp
  have hr: "\<not> hasLabel ''RESULT:'' noResultRaw"
    by code_simp
  from missing_label_defaults[of noResultRaw "''d/dx x^2''"] hr
  have 1: "pResult (parseStructured ''d/dx x^2'' noResultRaw) = ''Could not determine result''"
    by blast
  from missing_label_defaults[of _ "''d/dx x^2''" "''OPERATION:''" "[]"
         "'' derivative'' @ LF @ ''EXPRESSION: x^2'' @ LF @ ''STEPS: apply power rule''"] ho vo eo
  have 2: "pOperation (parseStructured ''d/dx x^2'' noResultRaw) = ''derivative''"
    by metis
  from missing_label_defaults[of _ "''d/dx x^2''" "''EXPRESSION:''" "''OPERATION: derivative'' @ LF"
         "'' x^2'' @ LF @ ''STEPS: apply power rule''"] he ve ee
  have 3: "pExpression (parseStructured ''d/dx x^2'' noResultRaw) = ''x^2''"
    by metis
  from missing_label_defaults[of _ "''d/dx x^2''" "''STEPS:''"
         "''OPERATION: derivative'' @ LF @ ''EXPRESSION: x^2'' @ LF" "'' apply power rule''"] hs vs es
  have 4: "pSteps (parseStructured ''d/dx x^2'' noResultRaw) = ''apply power rule''"
    by metis
  have ar: "\<not> hasLabel ''OPERATION:'' ([] @ ''result:'' @ '' 2x'')"
    "\<not> hasLabel ''EXPRESSION:'' ([] @ ''result:'' @ '' 2x'')"
    "\<not> hasLabel ''STEPS:'' ([] @ ''result:'' @ '' 2x'')"
    by code_simp+
  have hres: "list_all2 ciEq ''RESULT:'' ''result:''
          \<and> \<not> hasLabel ''RESULT:'' ([] @ butlast ''result:'')
          \<and> dropWhile isWhiteSpace '' 2x'' \<noteq> []"
    by code_simp
  have vres: "valueAfter '' 2x'' = ''2x''"
    by code_simp
  from missing_label_defaults[of "[] @ ''result:'' @ '' 2x''" "''d/dx x^2''" "''result:''" "[]" "'' 2x''"]
       ar hres vres
  have 5: "pResult (parseStructured ''d/dx x^2'' ([] @ ''result:'' @ '' 2x'')) = ''2x''
     \<and> pOperation (parseStructured ''d/dx x^2'' ([] @ ''result:'' @ '' 2x'')) = ''unknown''
     \<and> pExpression (parseStructured ''d/dx x^2'' ([] @ ''result:'' @ '' 2x'')) = ''d/dx x^2''
     \<and> pSteps (parseStructured ''d/dx x^2'' ([] @ ''result:'' @ '' 2x'')) = ''Steps not provided''"
    by metis
  have d1: "\<not> hasLabel ''Expression:'' ([] @ ''Operation:'' @ '' Derive'')"
    "list_all2 ciEq ''Operation:'' ''Operation:''
       \<and> \<not> hasLabel ''Operation:'' ([] @ butlast ''Operation:'')
       \<and> dropWhile isWhiteSpace '' Derive'' \<noteq> []"
    "toLowerCase (valueAfter '' Derive'') = ''derive''"
    by code_simp+
  from missing_label_defaults[of "[] @ ''Operation:'' @ '' Derive''" "''d/dx x^2''" "''Operation:''" "[]"
         "'' Derive''"] d1
  have 6: "aOperation (parseAnalysis ''d/dx x^2'' ([] @ ''Operation:'' @ '' Derive'')) = ''derive''
     \<and> aExpression (parseAnalysis ''d/dx x^2'' ([] @ ''Operation:'' @ '' Derive'')) = ''d/dx x^2''"
    by metis
  have d2: "\<not> hasLabel ''Operation:'' ([] @ ''expression:'' @ '' x^2'')"
    "list_all2 ciEq ''Expression:'' ''expression:''
       \<and> \<not> hasLabel ''Expression:'' ([] @ butlast ''expression:'')
       \<and> dropWhile isWhiteSpace '' x^2'' \<noteq> []"
    "valueAfter '' x^2'' = ''x^2''"
    by code_simp+
  from missing_label_defaults[of "[] @ ''expression:'' @ '' x^2''" "''d/dx x^2''" "''expression:''" "[]"
         "'' x^2''"] d2
  have 7: "aOperation (parseAnalysis ''d/dx x^2'' ([] @ ''expression:'' @ '' x^2'')) = ''simplify''
     \<and> aExpression (parseAnalysis ''d/dx x^2'' ([] @ ''expression:'' @ '' x^2'')) = ''x^2''"
    by metis
  from 1 2 3 4 5 6 7 show ?thesis
    by blast
qed

section \<open>The middleware and the simple endpoints\<close>

lemma serve_next: "reqMethod req \<noteq> ''OPTIONS'' \<Longrightarrow> serve req handler = handler corsResponse"
  by (simp add: serve_def cors_def header_def freshResponse_def corsResponse_def)

lemma response_simps [simp]:
  "statusCode corsResponse = 200"
  "statusCode (json v res) = statusCode res"
  "statusCode (status c res) = c"
  "resBody (json v res) = Json v"
  "field path (json v res) = at path v"
  by (simp_all add: corsResponse_def json_def status_def field_def)

lemma postSolve_simps [simp]:
  "reqMethod (postSolve p) = ''POST''" "bodyProblem (reqBody (postSolve p)) = p"
  by (simp_all add: postSolve_def)

text \<open>
  Claim C3. \<open>POST /solve\<close> whose body has no \<open>problem\<close> field, or the empty string as
  \<open>problem\<close>, is answered with status 400 and the body
  \<open>{error: "Problem statement is required"}\<close>, and no upstream call is made; this holds
  in both servers.
\<close>

theorem missing_problem_400:
  assumes "bodyProblem (reqBody req) = None \<or> bodyProblem (reqBody req) = Some []"
    and "reqMethod req = ''POST''"
  shows "fst (serve req (solve g req)) = []
       \<and> statusCode (snd (serve req (solve g req))) = 400
       \<and> resBody (snd (serve req (solve g req))) =
           Json (JObj [(''error'', JStr ''Problem statement is required'')])
       \<and> fst (serve req (solve1 g h req)) = []
       \<and> statusCode (snd (serve req (solve1 g h req))) = 400
       \<and> resBody (snd (serve req (solve1 g h req))) =
           Json (JObj [(''error'', JStr ''Problem statement is required'')])"
proof -
  from assms(2) have m: "reqMethod req \<noteq> ''OPTIONS''" by simp
  from assms(1) show ?thesis
    by (auto simp: serve_next[OF m] solve_def solve1_def missingProblem_def)
qed

theorem missing_problem_400_witness:
  "fst (serve (postSolve None) (solve (scriptedModel []) (postSolve None))) = []
   \<and> statusCode (snd (serve (postSolve None) (solve (scriptedModel []) (postSolve None)))) = 400
   \<and> statusCode (snd (serve (postSolve (Some []))
        (solve1 (scriptedModel []) (scriptedHttp []) (postSolve (Some []))))) = 400"
  using missing_problem_400[of "postSolve None" "scriptedModel []" "scriptedHttp []"]
        missing_problem_400[of "postSolve (Some [])" "scriptedModel []" "scriptedHttp []"]
  by simp

text \<open>
  Claim C9, as amended. An \<open>OPTIONS\<close> request to any route is answered by the CORS
  middleware alone: whatever the handler of the route, no upstream call is made, the
  status is 200 and the three CORS headers are set. The body is not empty: it is the
  status text \<open>OK\<close> that \<open>sendStatus\<close> sends.
\<close>

theorem options_short_circuit:
  assumes "reqMethod req = ''OPTIONS''"
  shows "fst (serve req handler) = []
       \<and> statusCode (snd (serve req handler)) = 200
       \<and> resBody (snd (serve req handler)) = Text ''OK''
       \<and> headers (snd (serve req handler)) ''Access-Control-Allow-Origin'' = Some ''*''
       \<and> headers (snd (serve req handler)) ''Access-Control-Allow-Methods''
            = Some ''GET, POST, PUT, DELETE, OPTIONS''
       \<and> headers (snd (serve req handler)) ''Access-Control-Allow-Headers''
            = Some ''Origin, X-Requested-With, Content-Type, Accept, Authorization''
       \<and> serve req handler = serve req handler'"
  using assms
  by (simp add: serve_def cors_def header_def sendStatus_def statusMessages_def freshResponse_def)

theorem options_short_circuit_witness:
  "reqMethod (optionsRequest ''/solve'') = ''OPTIONS''
   \<and> resBody (snd (serve (optionsRequest ''/solve'') (health None))) = Text ''OK''
   \<and> serve (optionsRequest ''/solve'') (health None)
       = serve (optionsRequest ''/solve'') (solve (scriptedModel []) (optionsRequest ''/solve''))"
proof -
  have m: "reqMethod (optionsRequest ''/solve'') = ''OPTIONS''"
    by (simp add: optionsRequest_def)
  from options_short_circuit[OF m, of "health None"
         "solve (scriptedModel []) (optionsRequest ''/solve'')"]
  show ?thesis
    using m by blast
qed

text \<open>
  The claim as the specification has it (an empty body) fails at an \<open>OPTIONS\<close> request
  to \<open>/solve\<close>.
\<close>

theorem options_body_counterexample:
  "resBody (snd (serve (optionsRequest ''/solve'') (health None))) \<notin> {NoBody, Text []}"
  by (simp add: serve_def cors_def header_def sendStatus_def statusMessages_def
        freshResponse_def optionsRequest_def)

text \<open>
  Claim C10. \<open>GET /health\<close> answers 200 with \<open>status: "healthy"\<close> whatever the value of
  \<open>GEMINI_API_KEY\<close>; \<open>services.gemini\<close> is true exactly when the variable is set and
  not empty; and the response is the same for any two values of the variable that are
  both set and non-empty (or both not), so it carries nothing else of the credential.
  This holds in both servers.
\<close>

theorem health_always_healthy:
  assumes "reqMethod req = ''GET''"
  shows "statusCode (snd (serve req (health k))) = 200
       \<and> field [''status''] (snd (serve req (health k))) = Some (JStr ''healthy'')
       \<and> field [''services'', ''gemini''] (snd (serve req (health k)))
            = Some (JBool (k \<noteq> None \<and> k \<noteq> Some []))
       \<and> statusCode (snd (serve req (health1 k))) = 200
       \<and> field [''status''] (snd (serve req (health1 k))) = Some (JStr ''healthy'')
       \<and> field [''services'', ''gemini''] (snd (serve req (health1 k)))
            = Some (JBool (k \<noteq> None \<and> k \<noteq> Some []))
       \<and> ((k = None \<or> k = Some []) = (k' = None \<or> k' = Some []) \<longrightarrow>
            serve req (health k) = serve req (health k')
            \<and> serve req (health1 k) = serve req (health1 k'))"
proof -
  from assms have m: "reqMethod req \<noteq> ''OPTIONS''" by simp
  show ?thesis
    by (auto simp: serve_next[OF m] health_def health1_def truthy_def split: option.splits)
qed

theorem health_always_healthy_witness:
  "reqMethod (getRequest ''/health'') = ''GET''
   \<and> field [''status''] (snd (serve (getRequest ''/health'') (health None))) = Some (JStr ''healthy'')
   \<and> field [''services'', ''gemini''] (snd (serve (getRequest ''/health'') (health None)))
        = Some (JBool False)
   \<and> field [''services'', ''gemini''] (snd (serve (getRequest ''/health'') (health (Some ''k1''))))
        = Some (JBool True)
   \<and> serve (getRequest ''/health'') (health (Some ''k1''))
        = serve (getRequest ''/health'') (health (Some ''k2''))"
proof -
  have m: "reqMethod (getRequest ''/health'') = ''GET''"
    by (simp add: getRequest_def)
  have a: "field [''services'', ''gemini''] (snd (serve (getRequest ''/health'') (health None)))
             = Some (JBool False)"
          "field [''status''] (snd (serve (getRequest ''/health'') (health None)))
             = Some (JStr ''healthy'')"
    using health_always_healthy[OF m, of None None] by simp_all
  note t = health_always_healthy[OF m, of "Some ''k1''" "Some ''k2''"]
  from t have "field [''services'', ''gemini''] (snd (serve (getRequest ''/health'') (health (Some ''k1''))))
             = Some (JBool (Some ''k1'' \<noteq> None \<and> Some ''k1'' \<noteq> Some []))"
    by blast
  then have b: "field [''services'', ''gemini''] (snd (serve (getRequest ''/health'') (health (Some ''k1''))))
             = Some (JBool True)"
    by simp
  from t have "(Some ''k1'' = None \<or> Some ''k1'' = Some []) = (Some ''k2'' = None \<or> Some ''k2'' = Some []) \<longrightarrow>
            serve (getRequest ''/health'') (health (Some ''k1''))
             = serve (getRequest ''/health'') (health (Some ''k2''))"
    by blast
  then have c: "serve (getRequest ''/health'') (health (Some ''k1''))
             = serve (getRequest ''/health'') (health (Some ''k2''))"
    by simp
  from m a b c show ?thesis by blast
qed

section \<open>The orchestrator of server.js\<close>

lemma serve_solve:
  assumes "reqMethod req = ''POST''" and "bodyProblem (reqBody req) = Some problem" and "problem \<noteq> []"
  shows "serve req (solve g req) =
     (case solveTry g problem of
        (log, Inr response) \<Rightarrow> (log, json response corsResponse)
      | (log, Inl message) \<Rightarrow>
          (log @ [GenerateContent (fallbackPrompt problem)],
           case g log (fallbackPrompt problem) of
             Inr fallbackResponse \<Rightarrow> json (fallbackResponseBody problem fallbackResponse) corsResponse
           | Inl fallbackMessage \<Rightarrow> json (failureBody message) (status 500 corsResponse)))"
proof -
  from assms(1) have m: "reqMethod req \<noteq> ''OPTIONS''" by simp
  show ?thesis
    using assms(2,3)
    by (simp add: serve_next[OF m] solve_def Let_def split: prod.splits sum.splits)
qed

lemma at_fallbackResponseBody [simp]:
  "at [''success''] (fallbackResponseBody p fb) = Some (JBool True)"
  "at [''originalProblem''] (fallbackResponseBody p fb) = Some (JStr p)"
  "at [''analysis'', ''operation''] (fallbackResponseBody p fb) = Some (JStr ''general'')"
  "at [''calculation'', ''method''] (fallbackResponseBody p fb) = Some (JStr ''gemini-fallback'')"
  "at [''calculation'', ''result''] (fallbackResponseBody p fb) = Some (JStr fb)"
  "at [''calculation'', ''operation''] (fallbackResponseBody p fb) = Some (JStr ''solve'')"
  "at [''explanation''] (fallbackResponseBody p fb) = Some (JStr ''Used fallback method to solve the problem.'')"
  "at [''rawGeminiResponse''] (fallbackResponseBody p fb) = Some (JStr fb)"
  by (simp_all add: fallbackResponseBody_def)

lemma at_failureBody [simp]:
  "at [''success''] (failureBody d) = Some (JBool False)"
  "at [''error''] (failureBody d) = Some (JStr ''Failed to solve math problem'')"
  "at [''details''] (failureBody d) = Some (JStr d)"
  "at [''calculation'', ''method''] (failureBody d) = None"
  by (simp_all add: failureBody_def)

lemma at_solveResponse [simp]:
  "at [''success''] (solveResponse p a e raw) = Some (JBool True)"
  "at [''originalProblem''] (solveResponse p a e raw) = Some (JStr p)"
  "at [''analysis'', ''operation''] (solveResponse p a e raw) = Some (JStr (pOperation a))"
  "at [''calculation'', ''method''] (solveResponse p a e raw) = Some (JStr ''gemini-ai'')"
  "at [''calculation'', ''result''] (solveResponse p a e raw) = Some (JStr (pResult a))"
  "at [''explanation''] (solveResponse p a e raw) = Some (JStr e)"
  by (simp_all add: solveResponse_def)

lemma solveTry_Inr:
  "solveTry g problem = (log, Inr response) \<Longrightarrow>
   \<exists>raw e. response = solveResponse problem (parseStructured problem raw) e raw"
  by (auto simp: solveTry_def Let_def split: sum.splits if_splits)

lemma solveTry_analysis_fails:
  "g [] (geminiPrompt problem) = Inl message \<Longrightarrow>
   solveTry g problem = ([GenerateContent (geminiPrompt problem)], Inl message)"
  by (simp add: solveTry_def Let_def)

lemma solveTry_validation_fails:
  "g [] (geminiPrompt problem) = Inr raw \<Longrightarrow> derivativeIsNumber (parseStructured problem raw) \<Longrightarrow>
   solveTry g problem = ([GenerateContent (geminiPrompt problem)], Inl validationMessage)"
  by (simp add: solveTry_def Let_def)

lemma solveTry_explanation_fails:
  "g [] (geminiPrompt problem) = Inr raw \<Longrightarrow> \<not> derivativeIsNumber (parseStructured problem raw) \<Longrightarrow>
   g [GenerateContent (geminiPrompt problem)] (explanationPrompt problem (parseStructured problem raw))
     = Inl message \<Longrightarrow>
   solveTry g problem =
     ([GenerateContent (geminiPrompt problem),
       GenerateContent (explanationPrompt problem (parseStructured problem raw))], Inl message)"
  by (simp add: solveTry_def Let_def)

lemma solveTry_succeeds:
  "g [] (geminiPrompt problem) = Inr raw \<Longrightarrow> \<not> derivativeIsNumber (parseStructured problem raw) \<Longrightarrow>
   g [GenerateContent (geminiPrompt problem)] (explanationPrompt problem (parseStructured problem raw))
     = Inr explanation \<Longrightarrow>
   solveTry g problem =
     ([GenerateContent (geminiPrompt problem),
       GenerateContent (explanationPrompt problem (parseStructured problem raw))],
      Inr (solveResponse problem (parseStructured problem raw) explanation raw))"
  by (simp add: solveTry_def Let_def)

lemma scripted_simps [simp]:
  "scriptedModel answers [] p = answer answers 0"
  "scriptedModel answers [GenerateContent p1] p = answer answers (Suc 0)"
  "scriptedModel answers [GenerateContent p1, GenerateContent p2] p = answer answers (Suc (Suc 0))"
  by (simp_all add: scriptedModel_def)

text \<open>
  Claim C1, as amended. When the body of the \<open>try\<close> fails with message \<open>message\<close>
  after the calls \<open>log\<close> (the analysis call failed, or the validation threw, or the
  explanation call failed: see \<open>solveTry_fails\<close> below), exactly one more completion
  is requested, with the prompt \<open>Solve this math problem: \<close> followed by the problem.
  When it succeeds the response is 200 with \<open>success: true\<close>, the raw completion as
  \<open>calculation.result\<close>, \<open>analysis.operation\<close> equal to \<open>general\<close> and
  \<open>calculation.method\<close> equal to \<open>gemini-fallback\<close>. When it fails the response is
  500 with \<open>success: false\<close> and \<open>details\<close> equal to the first message.
\<close>

theorem fallback_branch:
  assumes "reqMethod req = ''POST''" and "bodyProblem (reqBody req) = Some problem" and "problem \<noteq> []"
    and "solveTry g problem = (log, Inl message)"
  shows "fst (serve req (solve g req)) = log @ [GenerateContent (''Solve this math problem: '' @ problem)]
       \<and> (g log (''Solve this math problem: '' @ problem) = Inr fallbackResponse \<longrightarrow>
            statusCode (snd (serve req (solve g req))) = 200
          \<and> field [''success''] (snd (serve req (solve g req))) = Some (JBool True)
          \<and> field [''calculation'', ''result''] (snd (serve req (solve g req))) = Some (JStr fallbackResponse)
          \<and> field [''rawGeminiResponse''] (snd (serve req (solve g req))) = Some (JStr fallbackResponse)
          \<and> field [''calculation'', ''method''] (snd (serve req (solve g req))) = Some (JStr ''gemini-fallback'')
          \<and> field [''analysis'', ''operation''] (snd (serve req (solve g req))) = Some (JStr ''general''))
       \<and> (g log (''Solve this math problem: '' @ problem) = Inl fallbackMessage \<longrightarrow>
            statusCode (snd (serve req (solve g req))) = 500
          \<and> field [''success''] (snd (serve req (solve g req))) = Some (JBool False)
          \<and> field [''details''] (snd (serve req (solve g req))) = Some (JStr message))"
  by (simp add: serve_solve[OF assms(1-3)] assms(4) fallbackPrompt_def)

theorem fallback_branch_witness:
  "fst (serve (postSolve (Some ''2+2''))
         (solve (scriptedModel [Inl ''quota exceeded'', Inr ''4'']) (postSolve (Some ''2+2'')))) =
     [GenerateContent (geminiPrompt ''2+2''), GenerateContent (''Solve this math problem: '' @ ''2+2'')]
   \<and> statusCode (snd (serve (postSolve (Some ''2+2''))
         (solve (scriptedModel [Inl ''quota exceeded'', Inr ''4'']) (postSolve (Some ''2+2''))))) = 200
   \<and> field [''calculation'', ''result''] (snd (serve (postSolve (Some ''2+2''))
         (solve (scriptedModel [Inl ''quota exceeded'', Inr ''4'']) (postSolve (Some ''2+2'')))))
       = Some (JStr ''4'')
   \<and> statusCode (snd (serve (postSolve (Some ''2+2''))
         (solve (scriptedModel [Inl ''quota exceeded'', Inl ''still down'']) (postSolve (Some ''2+2''))))) = 500
   \<and> field [''details''] (snd (serve (postSolve (Some ''2+2''))
         (solve (scriptedModel [Inl ''quota exceeded'', Inl ''still down'']) (postSolve (Some ''2+2'')))))
       = Some (JStr ''quota exceeded'')"
proof -
  have n: "''2+2'' \<noteq> []" by simp
  have t1: "solveTry (scriptedModel [Inl ''quota exceeded'', Inr ''4'']) ''2+2''
              = ([GenerateContent (geminiPrompt ''2+2'')], Inl ''quota exceeded'')"
    by (simp add: solveTry_analysis_fails)
  have t2: "solveTry (scriptedModel [Inl ''quota exceeded'', Inl ''still down'']) ''2+2''
              = ([GenerateContent (geminiPrompt ''2+2'')], Inl ''quota exceeded'')"
    by (simp add: solveTry_analysis_fails)
  from fallback_branch[where req = "postSolve (Some ''2+2'')" and problem = "''2+2''"
         and fallbackResponse = "''4''", OF _ _ n t1]
       fallback_branch[where req = "postSolve (Some ''2+2'')" and problem = "''2+2''"
         and fallbackMessage = "''still down''", OF _ _ n t2]
  show ?thesis by simp
qed

text \<open>
  The claim as the specification has it (method tag \<open>fallback\<close>) fails: the tag that
  the handler writes is \<open>gemini-fallback\<close>.
\<close>

theorem fallback_tag_counterexample:
  "field [''calculation'', ''method'']
     (snd (serve (postSolve (Some ''2+2''))
            (solve (scriptedModel [Inl ''quota exceeded'', Inr ''4'']) (postSolve (Some ''2+2'')))))
   \<noteq> Some (JStr ''fallback'')"
  by code_simp

lemma solveTry_fails:
  assumes "solveTry g problem = (log, Inl message)"
  shows "(g [] (geminiPrompt problem) = Inl message \<and> log = [GenerateContent (geminiPrompt problem)])
       \<or> (\<exists>raw. g [] (geminiPrompt problem) = Inr raw
              \<and> derivativeIsNumber (parseStructured problem raw)
              \<and> message = validationMessage \<and> log = [GenerateContent (geminiPrompt problem)])
       \<or> (\<exists>raw. g [] (geminiPrompt problem) = Inr raw
              \<and> \<not> derivativeIsNumber (parseStructured problem raw)
              \<and> g [GenerateContent (geminiPrompt problem)]
                    (explanationPrompt problem (parseStructured problem raw)) = Inl message
              \<and> log = [GenerateContent (geminiPrompt problem),
                         GenerateContent (explanationPrompt problem (parseStructured problem raw))])"
  using assms
  by (auto simp: solveTry_def Let_def split: sum.splits if_splits)

text \<open>
  Claim C4. When the operation parsed from the analysis contains \<open>deriv\<close> in any letter
  case and the parsed result is one or more digits and nothing else, the handler throws
  the validation error, requests the fallback completion and answers with the fallback
  result (or with 500 and the validation message when the fallback fails too); it does
  not answer with the primary response that would carry the number.
\<close>

theorem derivative_number_goes_to_fallback:
  assumes "reqMethod req = ''POST''" and "bodyProblem (reqBody req) = Some problem" and "problem \<noteq> []"
    and "g [] (geminiPrompt problem) = Inr raw"
    and "includesStr (toLowerCase (pOperation (parseStructured problem raw))) ''deriv''"
    and "digitsOnly (pResult (parseStructured problem raw))"
  shows "solveTry g problem =
           ([GenerateContent (geminiPrompt problem)],
            Inl ''Derivative result should be an expression, not just a number'')
       \<and> fst (serve req (solve g req)) =
           [GenerateContent (geminiPrompt problem), GenerateContent (fallbackPrompt problem)]
       \<and> (g [GenerateContent (geminiPrompt problem)] (fallbackPrompt problem) = Inr fallbackResponse \<longrightarrow>
            statusCode (snd (serve req (solve g req))) = 200
          \<and> resBody (snd (serve req (solve g req))) = Json (fallbackResponseBody problem fallbackResponse))
       \<and> (g [GenerateContent (geminiPrompt problem)] (fallbackPrompt problem) = Inl fallbackMessage \<longrightarrow>
            statusCode (snd (serve req (solve g req))) = 500
          \<and> resBody (snd (serve req (solve g req))) =
              Json (failureBody ''Derivative result should be an expression, not just a number''))
       \<and> field [''calculation'', ''method''] (snd (serve req (solve g req))) \<noteq> Some (JStr ''gemini-ai'')"
proof -
  from assms(5,6) have d: "derivativeIsNumber (parseStructured problem raw)"
    by (simp add: derivativeIsNumber_def)
  have t: "solveTry g problem = ([GenerateContent (geminiPrompt problem)], Inl validationMessage)"
    using solveTry_validation_fails[of g problem raw] assms(4) d by simp
  show ?thesis
    by (cases "g [GenerateContent (geminiPrompt problem)] (fallbackPrompt problem)")
       (simp_all add: serve_solve[OF assms(1-3)] t validationMessage_def[symmetric])
qed

theorem derivative_number_goes_to_fallback_witness:
  "fst (serve (postSolve (Some ''d/dx 7x''))
         (solve (scriptedModel [Inr derivRaw, Inr ''The derivative is 7''])
                (postSolve (Some ''d/dx 7x'')))) =
     [GenerateContent (geminiPrompt ''d/dx 7x''), GenerateContent (fallbackPrompt ''d/dx 7x'')]
   \<and> resBody (snd (serve (postSolve (Some ''d/dx 7x''))
         (solve (scriptedModel [Inr derivRaw, Inr ''The derivative is 7''])
                (postSolve (Some ''d/dx 7x''))))) =
     Json (fallbackResponseBody ''d/dx 7x'' ''The derivative is 7'')"
proof -
  have o: "pOperation (parseStructured ''d/dx 7x'' derivRaw) = ''Derivative''"
    and r: "pResult (parseStructured ''d/dx 7x'' derivRaw) = ''7''"
    by code_simp+
  have h5: "includesStr (toLowerCase (pOperation (parseStructured ''d/dx 7x'' derivRaw))) ''deriv''"
    unfolding o by code_simp
  have h6: "digitsOnly (pResult (parseStructured ''d/dx 7x'' derivRaw))"
    unfolding r by code_simp
  have "''d/dx 7x'' \<noteq> []" by simp
  from derivative_number_goes_to_fallback[where req = "postSolve (Some ''d/dx 7x'')"
        and problem = "''d/dx 7x''" and raw = derivRaw
        and g = "scriptedModel [Inr derivRaw, Inr ''The derivative is 7'']"
        and fallbackResponse = "''The derivative is 7''", OF _ _ this _ h5 h6]
  show ?thesis by simp
qed

text \<open>
  Claim C5, as amended. In the single-model variant a failure of the explanation call
  is not retried (the explanation prompt is requested once), but it is not fatal by
  itself: the handler goes to the fallback branch and requests the fallback completion.
  The request succeeds with the fallback result, whose explanation is a fixed sentence,
  when that completion succeeds, and fails with 500 and the message of the explanation
  failure only when the fallback completion fails as well.
\<close>

theorem explanation_failure_goes_to_fallback:
  assumes "reqMethod req = ''POST''" and "bodyProblem (reqBody req) = Some problem" and "problem \<noteq> []"
    and "g [] (geminiPrompt problem) = Inr raw"
    and "\<not> derivativeIsNumber (parseStructured problem raw)"
    and "g [GenerateContent (geminiPrompt problem)]
           (explanationPrompt problem (parseStructured problem raw)) = Inl message"
  shows "fst (serve req (solve g req)) =
           [GenerateContent (geminiPrompt problem),
            GenerateContent (explanationPrompt problem (parseStructured problem raw)),
            GenerateContent (fallbackPrompt problem)]
       \<and> (g [GenerateContent (geminiPrompt problem),
              GenerateContent (explanationPrompt problem (parseStructured problem raw))]
             (fallbackPrompt problem) = Inr fallbackResponse \<longrightarrow>
            statusCode (snd (serve req (solve g req))) = 200
          \<and> field [''success''] (snd (serve req (solve g req))) = Some (JBool True)
          \<and> field [''calculation'', ''result''] (snd (serve req (solve g req))) = Some (JStr fallbackResponse)
          \<and> field [''explanation''] (snd (serve req (solve g req)))
               = Some (JStr ''Used fallback method to solve the problem.''))
       \<and> (g [GenerateContent (geminiPrompt problem),
              GenerateContent (explanationPrompt problem (parseStructured problem raw))]
             (fallbackPrompt problem) = Inl fallbackMessage \<longrightarrow>
            statusCode (snd (serve req (solve g req))) = 500
          \<and> field [''success''] (snd (serve req (solve g req))) = Some (JBool False)
          \<and> field [''details''] (snd (serve req (solve g req))) = Some (JStr message))"
  by (simp add: serve_solve[OF assms(1-3)] solveTry_explanation_fails[OF assms(4-6)])


theorem explanation_failure_goes_to_fallback_witness:
  "fst (serve (postSolve (Some ''2+2''))
         (solve (scriptedModel [Inr addRaw, Inl ''overloaded'', Inl ''overloaded again''])
                (postSolve (Some ''2+2'')))) =
     [GenerateContent (geminiPrompt ''2+2''),
      GenerateContent (explanationPrompt ''2+2'' (parseStructured ''2+2'' addRaw)),
      GenerateContent (fallbackPrompt ''2+2'')]
   \<and> statusCode (snd (serve (postSolve (Some ''2+2''))
         (solve (scriptedModel [Inr addRaw, Inl ''overloaded'', Inl ''overloaded again''])
                (postSolve (Some ''2+2''))))) = 500
   \<and> field [''details''] (snd (serve (postSolve (Some ''2+2''))
         (solve (scriptedModel [Inr addRaw, Inl ''overloaded'', Inl ''overloaded again''])
                (postSolve (Some ''2+2''))))) = Some (JStr ''overloaded'')"
proof -
  have h5: "\<not> derivativeIsNumber (parseStructured ''2+2'' addRaw)"
    by code_simp
  have "''2+2'' \<noteq> []" by simp
  from explanation_failure_goes_to_fallback[where req = "postSolve (Some ''2+2'')"
        and problem = "''2+2''" and raw = addRaw and message = "''overloaded''"
        and g = "scriptedModel [Inr addRaw, Inl ''overloaded'', Inl ''overloaded again'']"
        and fallbackMessage = "''overloaded again''", OF _ _ this _ h5]
  show ?thesis by simp
qed

text \<open>
  The claim as the specification has it (the failure of the explanation call is fatal)
  fails: with a successful analysis, a failing explanation call and a successful
  fallback completion the answer is 200 with \<open>success: true\<close>.
\<close>

theorem explanation_failure_counterexample:
  "statusCode (snd (serve (postSolve (Some ''2+2''))
         (solve (scriptedModel [Inr addRaw, Inl ''overloaded'', Inr ''4''])
                (postSolve (Some ''2+2''))))) = 200
   \<and> field [''success''] (snd (serve (postSolve (Some ''2+2''))
         (solve (scriptedModel [Inr addRaw, Inl ''overloaded'', Inr ''4''])
                (postSolve (Some ''2+2''))))) = Some (JBool True)"
  by code_simp

section \<open>The orchestrator of server1.js, and both handlers side by side\<close>

lemma serve_solve1:
  assumes "reqMethod req = ''POST''" and "bodyProblem (reqBody req) = Some problem" and "problem \<noteq> []"
  shows "serve req (solve1 g h req) =
     (case solveTry1 g h problem of
        (log, Inr response) \<Rightarrow> (log, json response corsResponse)
      | (log, Inl message) \<Rightarrow> (log, json (failureBody message) (status 500 corsResponse)))"
proof -
  from assms(1) have m: "reqMethod req \<noteq> ''OPTIONS''" by simp
  show ?thesis
    using assms(2,3)
    by (simp add: serve_next[OF m] solve1_def split: prod.splits sum.splits)
qed

lemma at_solveResponse1 [simp]:
  "at [''success''] (solveResponse1 p a op d e raw) = Some (JBool True)"
  "at [''originalProblem''] (solveResponse1 p a op d e raw) = Some (JStr p)"
  "at [''analysis'', ''operation''] (solveResponse1 p a op d e raw) = Some (JStr (aOperation a))"
  "at [''calculation'', ''method''] (solveResponse1 p a op d e raw) = Some op"
  "at [''calculation'', ''result''] (solveResponse1 p a op d e raw) = Some (JStr (dataResult d))"
  by (simp_all add: solveResponse1_def)

lemma explain1_Inr:
  "explain1 g log problem a op d raw = (log', Inr response) \<Longrightarrow>
   \<exists>e. response = solveResponse1 problem a op d e raw"
  by (auto simp: explain1_def Let_def split: sum.splits)

lemma solveTry1_Inr:
  "solveTry1 g h problem = (log, Inr response) \<Longrightarrow>
   \<exists>raw d e. g [] (geminiPrompt1 problem) = Inr raw
     \<and> response = solveResponse1 problem (parseAnalysis problem raw)
                    (newtonOpOf (aOperation (parseAnalysis problem raw))) d e raw"
  by (auto simp: solveTry1_def Let_def split: sum.splits prod.splits dest!: explain1_Inr)

text \<open>
  Claim C2, as amended. For a non-empty problem string, \<open>POST /solve\<close> answers in both
  servers either 200 with \<open>success: true\<close>, \<open>originalProblem\<close> equal to the problem
  (hence not empty) and strings as \<open>analysis.operation\<close> and \<open>calculation.result\<close>, or
  500 with \<open>success: false\<close>; never 200 with \<open>success: false\<close>. The two strings may
  be empty.
\<close>

theorem solve_success_or_500:
  assumes "reqMethod req = ''POST''" and "bodyProblem (reqBody req) = Some problem" and "problem \<noteq> []"
  shows "((statusCode (snd (serve req (solve g req))) = 200
          \<and> field [''success''] (snd (serve req (solve g req))) = Some (JBool True)
          \<and> field [''originalProblem''] (snd (serve req (solve g req))) = Some (JStr problem)
          \<and> (\<exists>v. field [''analysis'', ''operation''] (snd (serve req (solve g req))) = Some (JStr v))
          \<and> (\<exists>v. field [''calculation'', ''result''] (snd (serve req (solve g req))) = Some (JStr v)))
        \<or> (statusCode (snd (serve req (solve g req))) = 500
          \<and> field [''success''] (snd (serve req (solve g req))) = Some (JBool False)))
       \<and> ((statusCode (snd (serve req (solve1 g h req))) = 200
          \<and> field [''success''] (snd (serve req (solve1 g h req))) = Some (JBool True)
          \<and> field [''originalProblem''] (snd (serve req (solve1 g h req))) = Some (JStr problem)
          \<and> (\<exists>v. field [''analysis'', ''operation''] (snd (serve req (solve1 g h req))) = Some (JStr v))
          \<and> (\<exists>v. field [''calculation'', ''result''] (snd (serve req (solve1 g h req))) = Some (JStr v)))
        \<or> (statusCode (snd (serve req (solve1 g h req))) = 500
          \<and> field [''success''] (snd (serve req (solve1 g h req))) = Some (JBool False)))"
proof
  obtain log out where t: "solveTry g problem = (log, out)" by (cases "solveTry g problem")
  show "(statusCode (snd (serve req (solve g req))) = 200
          \<and> field [''success''] (snd (serve req (solve g req))) = Some (JBool True)
          \<and> field [''originalProblem''] (snd (serve req (solve g req))) = Some (JStr problem)
          \<and> (\<exists>v. field [''analysis'', ''operation''] (snd (serve req (solve g req))) = Some (JStr v))
          \<and> (\<exists>v. field [''calculation'', ''result''] (snd (serve req (solve g req))) = Some (JStr v)))
        \<or> (statusCode (snd (serve req (solve g req))) = 500
          \<and> field [''success''] (snd (serve req (solve g req))) = Some (JBool False))"
  proof (cases out)
    case (Inr response)
    with t solveTry_Inr obtain raw e
      where "response = solveResponse problem (parseStructured problem raw) e raw" by blast
    with t Inr show ?thesis by (simp add: serve_solve[OF assms])
  next
    case (Inl message)
    with t show ?thesis
      by (cases "g log (fallbackPrompt problem)") (simp_all add: serve_solve[OF assms])
  qed
next
  obtain log out where t: "solveTry1 g h problem = (log, out)" by (cases "solveTry1 g h problem")
  show "(statusCode (snd (serve req (solve1 g h req))) = 200
          \<and> field [''success''] (snd (serve req (solve1 g h req))) = Some (JBool True)
          \<and> field [''originalProblem''] (snd (serve req (solve1 g h req))) = Some (JStr problem)
          \<and> (\<exists>v. field [''analysis'', ''operation''] (snd (serve req (solve1 g h req))) = Some (JStr v))
          \<and> (\<exists>v. field [''calculation'', ''result''] (snd (serve req (solve1 g h req))) = Some (JStr v)))
        \<or> (statusCode (snd (serve req (solve1 g h req))) = 500
          \<and> field [''success''] (snd (serve req (solve1 g h req))) = Some (JBool False))"
  proof (cases out)
    case (Inr response)
    with t solveTry1_Inr obtain raw d e
      where "response = solveResponse1 problem (parseAnalysis problem raw)
                    (newtonOpOf (aOperation (parseAnalysis problem raw))) d e raw" by blast
    with t Inr show ?thesis by (simp add: serve_solve1[OF assms])
  next
    case (Inl message)
    with t show ?thesis by (simp add: serve_solve1[OF assms])
  qed
qed

theorem solve_success_or_500_witness:
  "statusCode (snd (serve (postSolve (Some ''x^2''))
      (solve (scriptedModel [Inr specExample, Inr ''because'']) (postSolve (Some ''x^2''))))) = 200
   \<and> field [''originalProblem''] (snd (serve (postSolve (Some ''x^2''))
      (solve (scriptedModel [Inr specExample, Inr ''because'']) (postSolve (Some ''x^2'')))))
       = Some (JStr ''x^2'')
   \<and> statusCode (snd (serve (postSolve (Some ''x^2''))
      (solve1 (scriptedModel [Inl ''quota exceeded'']) (scriptedHttp []) (postSolve (Some ''x^2''))))) = 500"
proof -
  have n: "''x^2'' \<noteq> []" by simp
  have a: "statusCode (snd (serve (postSolve (Some ''x^2''))
      (solve (scriptedModel [Inr specExample, Inr ''because'']) (postSolve (Some ''x^2''))))) \<noteq> 500"
    by code_simp
  have b: "statusCode (snd (serve (postSolve (Some ''x^2''))
      (solve1 (scriptedModel [Inl ''quota exceeded'']) (scriptedHttp []) (postSolve (Some ''x^2''))))) \<noteq> 200"
    by code_simp
  from solve_success_or_500[where req = "postSolve (Some ''x^2'')" and problem = "''x^2''"
         and g = "scriptedModel [Inr specExample, Inr ''because'']", OF _ _ n] a
       solve_success_or_500[where req = "postSolve (Some ''x^2'')" and problem = "''x^2''"
         and g = "scriptedModel [Inl ''quota exceeded'']" and h = "scriptedHttp []", OF _ _ n] b
  show ?thesis by simp
qed

text \<open>
  The claim as the specification has it (a non-empty \<open>calculation.result\<close>) fails: when
  the completion ends with the label \<open>RESULT:\<close> and a blank, the result is the empty
  string and the answer is still 200 with \<open>success: true\<close>.
\<close>

theorem empty_result_counterexample:
"statusCode (snd (serve (postSolve (Some ''2+2''))
      (solve (scriptedModel [Inr (''OPERATION: add'' @ LF @ ''RESULT: ''), Inr ''because''])
             (postSolve (Some ''2+2''))))) = 200
   \<and> field [''success''] (snd (serve (postSolve (Some ''2+2''))
      (solve (scriptedModel [Inr (''OPERATION: add'' @ LF @ ''RESULT: ''), Inr ''because''])
             (postSolve (Some ''2+2''))))) = Some (JBool True)
   \<and> field [''calculation'', ''result''] (snd (serve (postSolve (Some ''2+2''))
      (solve (scriptedModel [Inr (''OPERATION: add'' @ LF @ ''RESULT: ''), Inr ''because''])
             (postSolve (Some ''2+2''))))) = Some (JStr [])"
  by code_simp

text \<open>The operation is empty in the same way when it is the last label.\<close>

lemma empty_operation_example:
  "statusCode (snd (serve (postSolve (Some ''2+2''))
      (solve (scriptedModel [Inr (''RESULT: 4'' @ LF @ ''OPERATION: ''), Inr ''because''])
             (postSolve (Some ''2+2''))))) = 200
   \<and> field [''analysis'', ''operation''] (snd (serve (postSolve (Some ''2+2''))
      (solve (scriptedModel [Inr (''RESULT: 4'' @ LF @ ''OPERATION: ''), Inr ''because''])
             (postSolve (Some ''2+2''))))) = Some (JStr [])"
  by code_simp

lemma catalog_values_nonempty: "map_of NEWTON_OPERATIONS operation = Some tok \<Longrightarrow> tok \<noteq> []"
  by (auto simp: NEWTON_OPERATIONS_def split: if_splits)

lemma newtonOpOf_catalog:
  "map_of NEWTON_OPERATIONS operation = Some tok \<Longrightarrow> newtonOpOf operation = JStr tok"
  using catalog_values_nonempty[of operation tok]
  by (simp add: newtonOpOf_def getProperty_def orElse_def)

lemma newtonOpOf_default:
  "map_of NEWTON_OPERATIONS operation = None \<Longrightarrow> operation \<notin> set objectPrototypeKeys \<Longrightarrow>
   newtonOpOf operation = JStr ''simplify''"
  by (simp add: newtonOpOf_def getProperty_def orElse_def)

lemma newtonOpOf_inherited:
  "map_of NEWTON_OPERATIONS operation = None \<Longrightarrow> operation \<in> set objectPrototypeKeys \<Longrightarrow>
   newtonOpOf operation = JInherited operation"
  by (simp add: newtonOpOf_def getProperty_def orElse_def)

lemma newton_retry:
  assumes "reqMethod req = ''POST''" and "bodyProblem (reqBody req) = Some problem" and "problem \<noteq> []"
    and "g [] (geminiPrompt1 problem) = Inr raw"
    and "a = parseAnalysis problem raw"
    and "log1 = [GenerateContent (geminiPrompt1 problem)]"
    and "u1 = newtonUrl (newtonOpOf (aOperation a)) (aExpression a)"
    and "u2 = newtonUrl (JStr ''simplify'') (aExpression a)"
    and "h log1 u1 = Inl e1"
  shows "(h (log1 @ [AxiosGet u1]) u2 = Inl e2 \<longrightarrow>
            serve req (solve1 g h req) =
              (log1 @ [AxiosGet u1, AxiosGet u2],
               json (failureBody (''Newton API error: '' @ e2)) (status 500 corsResponse)))
       \<and> (h (log1 @ [AxiosGet u1]) u2 = Inr d \<longrightarrow>
            serve req (solve1 g h req) =
              (case explain1 g (log1 @ [AxiosGet u1, AxiosGet u2]) problem a (newtonOpOf (aOperation a)) d raw of
                 (log, Inr response) \<Rightarrow> (log, json response corsResponse)
               | (log, Inl message) \<Rightarrow> (log, json (failureBody message) (status 500 corsResponse))))"
  using assms(4-9)
  by (simp add: serve_solve1[OF assms(1-3)] solveTry1_def callNewtonAPI_def Let_def)

lemma explanation_failure_fatal_dual:
  assumes "reqMethod req = ''POST''" and "bodyProblem (reqBody req) = Some problem" and "problem \<noteq> []"
    and "g [] (geminiPrompt1 problem) = Inr raw"
    and "a = parseAnalysis problem raw"
    and "log1 = [GenerateContent (geminiPrompt1 problem)]"
    and "u1 = newtonUrl (newtonOpOf (aOperation a)) (aExpression a)"
    and "h log1 u1 = Inr d"
    and "g (log1 @ [AxiosGet u1]) (explanationPrompt1 problem a d) = Inl message"
  shows "serve req (solve1 g h req) =
           (log1 @ [AxiosGet u1, GenerateContent (explanationPrompt1 problem a d)],
            json (failureBody message) (status 500 corsResponse))"
  using assms(4-9)
  by (simp add: serve_solve1[OF assms(1-3)] solveTry1_def callNewtonAPI_def explain1_def Let_def)

text \<open>
  Claim C8. The retry is as claimed (\<open>newton_retry\<close>), and an operation that is neither
  a key of the catalog nor the name of an inherited property is mapped to \<open>simplify\<close>
  (\<open>newtonOpOf_default\<close>). The second part of the claim fails for the operation
  \<open>constructor\<close>: it is not a key of the catalog, yet the lookup finds the property
  that the catalog object inherits, so the operation of the first request is that
  function, written out in the URL, and not \<open>simplify\<close>.
\<close>

theorem inherited_operation_not_simplify:
  "aOperation (parseAnalysis ''x^2'' (''Operation: constructor'' @ LF @ ''Expression: x^2'')) = ''constructor''
   \<and> map_of NEWTON_OPERATIONS ''constructor'' = None
   \<and> newtonOpOf ''constructor'' = JInherited ''constructor''
   \<and> fst (serve (postSolve (Some ''x^2''))
        (solve1 (scriptedModel [Inr (''Operation: constructor'' @ LF @ ''Expression: x^2''), Inr ''explained''])
                (scriptedHttp [Inr \<lparr>dataResult = ''x^2'', dataOperation = ''simplify''\<rparr>])
                (postSolve (Some ''x^2'')))) ! 1
       = AxiosGet ''https://newton.now.sh/api/v2/function Object() { [native code] }/x%5E2''"
  by code_simp

end
